theory Spec2Isabelle
  imports Complex_Main "HOL-Library.Word"
begin

unbundle bit_operations_syntax

text \<open>
  UniVerify (\<open>src/server.js\<close>) registers PDF certificates under the MD5 digest of their
  bytes and verifies an upload by looking its digest up. This theory embeds the two request
  handlers, \<open>POST /api/university/upload\<close> and \<open>POST /api/verify\<close>, with the functions
  they call (\<open>readDb\<close>, \<open>writeDb\<close>, \<open>md5Buffer\<close>), and proves the properties C1 to C10
  of them. A handler is a function of the configuration, of what the outside world decides
  during the request (random bytes, the clock, which filesystem calls are rejected), of the
  disk and of the request; it returns the response, the disk it leaves, and the calls it
  made that change the disk. An exception is the left summand of a result, and a \<open>try\<close> block
  with its \<open>catch\<close> is a pair of functions. The request is what the multipart parser hands
  to the handler; routing, parsing and the static pages are outside.
\<close>

section \<open>Values of the JavaScript runtime\<close>

text \<open>
  A JavaScript string is a sequence of UTF-16 code units; a Buffer is a sequence of bytes.
  \<open>js\<close> turns an ASCII literal of the source into its code units.
\<close>

type_synonym byte = "8 word"
type_synonym code_unit = "16 word"
type_synonym js_string = "code_unit list"

definition js :: "string \<Rightarrow> js_string" where
  "js s = map of_char s"

text \<open>
  \<open>String.prototype.trim\<close> removes, at both ends, the code units that ECMAScript calls
  WhiteSpace (TAB, VT, FF, SP, NBSP, ZWNBSP and the Unicode space separators) or
  LineTerminator (LF, CR, LS, PS).
\<close>

definition is_white_space :: "code_unit \<Rightarrow> bool" where
  "is_white_space c \<longleftrightarrow>
     c \<in> {0x9, 0xA, 0xB, 0xC, 0xD, 0x20, 0xA0, 0x1680, 0x2028, 0x2029, 0x202F, 0x205F,
          0x3000, 0xFEFF}
     \<or> (0x2000 \<le> c \<and> c \<le> 0x200A)"

definition trim :: "js_string \<Rightarrow> js_string" where
  "trim s = rev (dropWhile is_white_space (rev (dropWhile is_white_space s)))"

text \<open>\<open>buf.toString("hex")\<close>: two lower-case hexadecimal digits for each byte.\<close>

definition hex_digit :: "nat \<Rightarrow> code_unit" where
  "hex_digit n = (if n < 10 then of_nat (48 + n) else of_nat (87 + n))"

definition hex :: "byte list \<Rightarrow> js_string" where
  "hex bs = concat (map (\<lambda>b. [hex_digit (unat b div 16), hex_digit (unat b mod 16)]) bs)"

text \<open>
  The values \<open>JSON.parse\<close> returns. A number is a double: a finite value, the negative
  zero, or an infinity (the reading of a literal beyond the double range); numbers are only
  carried around by this program. An object is the list of its own properties in enumeration
  order; \<open>JSON.parse\<close> returns objects whose keys are distinct.
\<close>

datatype js_number = Finite rat | NegZero | PosInfinity | NegInfinity

datatype json =
    JNull
  | JBool bool
  | JNum js_number
  | JStr js_string
  | JArr "json list"
  | JObj "(js_string \<times> json) list"

text \<open>
  What \<open>JSON.parse (JSON.stringify v)\<close> is, for a value \<open>v\<close> built from parsed values and
  strings: strings, booleans, finite numbers, arrays and objects come back as they are, the
  negative zero is written \<open>0\<close>, and an infinity is written \<open>null\<close>.
\<close>

primrec stringify_parse :: "json \<Rightarrow> json" where
  "stringify_parse JNull = JNull"
| "stringify_parse (JBool b) = JBool b"
| "stringify_parse (JNum n) =
     (case n of
        Finite r \<Rightarrow> JNum (Finite r)
      | NegZero \<Rightarrow> JNum (Finite 0)
      | PosInfinity \<Rightarrow> JNull
      | NegInfinity \<Rightarrow> JNull)"
| "stringify_parse (JStr s) = JStr s"
| "stringify_parse (JArr xs) = JArr (map stringify_parse xs)"
| "stringify_parse (JObj kvs) = JObj (map (map_prod id stringify_parse) kvs)"

text \<open>The truthiness that \<open>||\<close>, \<open>!\<close> and \<open>if\<close> test.\<close>

fun truthy :: "json \<Rightarrow> bool" where
  "truthy JNull = False"
| "truthy (JBool b) = b"
| "truthy (JNum n) = (n \<noteq> Finite 0 \<and> n \<noteq> NegZero)"
| "truthy (JStr s) = (s \<noteq> [])"
| "truthy (JArr xs) = True"
| "truthy (JObj kvs) = True"

text \<open>
  Exceptions. \<open>Rejected s\<close> is a rejected filesystem promise whose \<open>String(e)\<close> is \<open>s\<close>;
  a \<open>TypeError\<close> carries its message (in the wording of V8).
\<close>

datatype js_error = TypeError js_string | Rejected js_string

primrec to_String :: "js_error \<Rightarrow> js_string" where
  "to_String (TypeError m) = js ''TypeError: '' @ m"
| "to_String (Rejected s) = s"

text \<open>
  The property read \<open>v.k\<close> for the property names this program reads (\<open>certificates\<close>,
  \<open>md5\<close>, \<open>studentName\<close>, \<open>degree\<close>, \<open>issueDate\<close>, \<open>createdAt\<close>), none of which lives
  on a prototype: it throws on \<open>null\<close>, reads the own property of an object, and is
  \<open>undefined\<close> (\<open>None\<close>) on anything else.
\<close>

fun property :: "json \<Rightarrow> js_string \<Rightarrow> json option" where
  "property (JObj kvs) k = map_of kvs k"
| "property v k = None"

definition get_prop :: "json \<Rightarrow> js_string \<Rightarrow> js_error + json option" where
  "get_prop v k =
     (if v = JNull then
        Inl (TypeError (js ''Cannot read properties of null (reading '' @ [0x27] @ k @ [0x27] @ js '')''))
      else Inr (property v k))"

text \<open>\<open>Array.prototype.find\<close>, with a callback that may throw.\<close>

fun array_find :: "('a \<Rightarrow> js_error + bool) \<Rightarrow> 'a list \<Rightarrow> js_error + 'a option" where
  "array_find p [] = Inr None"
| "array_find p (x # xs) =
     (case p x of
        Inl e \<Rightarrow> Inl e
      | Inr True \<Rightarrow> Inr (Some x)
      | Inr False \<Rightarrow> array_find p xs)"

text \<open>
  An object literal of the source; a property whose value is \<open>undefined\<close> is left out, as
  \<open>JSON.stringify\<close> leaves it out of what \<open>res.json\<close> sends.
\<close>

definition object :: "(string \<times> json option) list \<Rightarrow> json" where
  "object kvs = JObj (concat (map (\<lambda>(k, v). case v of None \<Rightarrow> [] | Some j \<Rightarrow> [(js k, j)]) kvs))"

section \<open>The filesystem and the environment of a request\<close>

text \<open>
  \<open>DATA_FILE\<close> is known to the program only through \<open>fs.readFile\<close> followed by
  \<open>JSON.parse\<close>: the read is rejected (\<open>Unreadable\<close>: no such file, no permission), or the
  text is refused by the parser (\<open>Unparsable\<close>), or it parses to a value. \<open>UPLOADS_DIR\<close>
  maps a file name to the bytes stored under it.
\<close>

datatype file_state = Unreadable | Unparsable | Parses json

record fs =
  DATA_FILE :: file_state
  UPLOADS_DIR :: "js_string \<Rightarrow> byte list option"

text \<open>
  What the outside world decides during one request: the bytes \<open>crypto.randomBytes(8)\<close>
  returns, the text \<open>new Date().toISOString()\<close> returns, and whether each \<open>fs.mkdir\<close> and
  \<open>fs.writeFile\<close> completes. A rejected \<open>mkdir\<close> gives the \<open>String(e)\<close> of its error. A
  rejected \<open>writeFile\<close> gives it too, and what it leaves at the path: the file untouched (the
  open failed), a strict prefix of the content (the file is opened truncating), or the whole
  content.
\<close>

datatype leftover = Untouched | Prefix nat | Whole

datatype write_outcome = Completes | Rejects js_string leftover

record io =
  randomBytes :: "byte list"
  toISOString :: js_string
  mkdir_UPLOADS_DIR :: "js_string option"
  writeFile_upload :: write_outcome
  mkdir_data :: "js_string option"
  writeFile_DATA_FILE :: write_outcome

text \<open>The configuration: \<open>process.env.ADMIN_TOKEN\<close>, a string or \<open>undefined\<close>.\<close>

record env =
  ADMIN_TOKEN :: "js_string option"

text \<open>The filesystem calls that change the disk, in the order a handler issues them.\<close>

datatype dir = UploadsDir | DataDir

datatype fs_call = Mkdir dir | WriteBlob js_string "byte list" | WriteStore json

definition blob_writes :: "fs_call list \<Rightarrow> nat" where
  "blob_writes cs = length (filter (\<lambda>c. case c of WriteBlob n b \<Rightarrow> True | _ \<Rightarrow> False) cs)"

definition store_writes :: "fs_call list \<Rightarrow> nat" where
  "store_writes cs = length (filter (\<lambda>c. case c of WriteStore v \<Rightarrow> True | _ \<Rightarrow> False) cs)"

section \<open>The digest\<close>

text \<open>
  \<open>crypto.createHash("md5").update(buf).digest()\<close>: MD5 as RFC 1321 defines it. The
  message is padded with the byte 0x80, zero bytes up to 56 modulo 64, and its length in bits
  as a 64-bit little-endian number; each block of 64 bytes, read as 16 little-endian words,
  goes through 64 steps on the four words of the state; the digest is the final state in
  little-endian bytes.
\<close>

definition md5_K :: "32 word list" where
  "md5_K =
    [0xd76aa478, 0xe8c7b756, 0x242070db, 0xc1bdceee, 0xf57c0faf, 0x4787c62a, 0xa8304613, 0xfd469501,
     0x698098d8, 0x8b44f7af, 0xffff5bb1, 0x895cd7be, 0x6b901122, 0xfd987193, 0xa679438e, 0x49b40821,
     0xf61e2562, 0xc040b340, 0x265e5a51, 0xe9b6c7aa, 0xd62f105d, 0x02441453, 0xd8a1e681, 0xe7d3fbc8,
     0x21e1cde6, 0xc33707d6, 0xf4d50d87, 0x455a14ed, 0xa9e3e905, 0xfcefa3f8, 0x676f02d9, 0x8d2a4c8a,
     0xfffa3942, 0x8771f681, 0x6d9d6122, 0xfde5380c, 0xa4beea44, 0x4bdecfa9, 0xf6bb4b60, 0xbebfbc70,
     0x289b7ec6, 0xeaa127fa, 0xd4ef3085, 0x04881d05, 0xd9d4d039, 0xe6db99e5, 0x1fa27cf8, 0xc4ac5665,
     0xf4292244, 0x432aff97, 0xab9423a7, 0xfc93a039, 0x655b59c3, 0x8f0ccc92, 0xffeff47d, 0x85845dd1,
     0x6fa87e4f, 0xfe2ce6e0, 0xa3014314, 0x4e0811a1, 0xf7537e82, 0xbd3af235, 0x2ad7d2bb, 0xeb86d391]"

definition md5_s :: "nat list" where
  "md5_s =
    [7, 12, 17, 22, 7, 12, 17, 22, 7, 12, 17, 22, 7, 12, 17, 22,
     5, 9, 14, 20, 5, 9, 14, 20, 5, 9, 14, 20, 5, 9, 14, 20,
     4, 11, 16, 23, 4, 11, 16, 23, 4, 11, 16, 23, 4, 11, 16, 23,
     6, 10, 15, 21, 6, 10, 15, 21, 6, 10, 15, 21, 6, 10, 15, 21]"

definition rotl32 :: "32 word \<Rightarrow> nat \<Rightarrow> 32 word" where
  "rotl32 w n = push_bit n w OR drop_bit (32 - n) w"

definition le_bytes32 :: "32 word \<Rightarrow> byte list" where
  "le_bytes32 w = map (\<lambda>i. ucast (drop_bit (8 * i) w)) [0, 1, 2, 3]"

definition le_bytes64 :: "64 word \<Rightarrow> byte list" where
  "le_bytes64 w = map (\<lambda>i. ucast (drop_bit (8 * i) w)) [0, 1, 2, 3, 4, 5, 6, 7]"

definition le_word :: "byte list \<Rightarrow> 32 word" where
  "le_word bs = foldr (\<lambda>b w. push_bit 8 w OR ucast b) bs 0"

definition md5_pad :: "byte list \<Rightarrow> byte list" where
  "md5_pad m =
     m @ [0x80] @ replicate ((55 + 64 - length m mod 64) mod 64) 0 @
     le_bytes64 (of_nat (8 * length m))"

fun chunks :: "nat \<Rightarrow> 'a list \<Rightarrow> 'a list list" where
  "chunks n xs = (if n = 0 \<or> xs = [] then [] else take n xs # chunks n (drop n xs))"

declare chunks.simps [simp del]

type_synonym md5_state = "32 word \<times> 32 word \<times> 32 word \<times> 32 word"

definition md5_F :: "nat \<Rightarrow> 32 word \<Rightarrow> 32 word \<Rightarrow> 32 word \<Rightarrow> 32 word" where
  "md5_F i B C D =
     (if i < 16 then (B AND C) OR (NOT B AND D)
      else if i < 32 then (D AND B) OR (NOT D AND C)
      else if i < 48 then B XOR C XOR D
      else C XOR (B OR NOT D))"

definition md5_g :: "nat \<Rightarrow> nat" where
  "md5_g i =
     (if i < 16 then i
      else if i < 32 then (5 * i + 1) mod 16
      else if i < 48 then (3 * i + 5) mod 16
      else (7 * i) mod 16)"

definition md5_round :: "32 word list \<Rightarrow> md5_state \<Rightarrow> nat \<Rightarrow> md5_state" where
  "md5_round M st i =
     (case st of (A, B, C, D) \<Rightarrow>
        (D, B + rotl32 (md5_F i B C D + A + md5_K ! i + M ! md5_g i) (md5_s ! i), B, C))"

definition md5_chunk :: "md5_state \<Rightarrow> byte list \<Rightarrow> md5_state" where
  "md5_chunk st chunk =
     (case (st, foldl (md5_round (map le_word (chunks 4 chunk))) st [0..<64]) of
        ((a0, b0, c0, d0), (A, B, C, D)) \<Rightarrow> (a0 + A, b0 + B, c0 + C, d0 + D))"

definition MD5 :: "byte list \<Rightarrow> byte list" where
  "MD5 m =
     (case foldl md5_chunk (0x67452301, 0xefcdab89, 0x98badcfe, 0x10325476)
             (chunks 64 (md5_pad m)) of
        (a, b, c, d) \<Rightarrow> concat (map le_bytes32 [a, b, c, d]))"

section \<open>The record store\<close>

record db =
  certificates :: json

text \<open>
  \<open>readDb\<close>: the body of the \<open>try\<close> block, where \<open>None\<close> is any exception (a rejected
  read, a syntax error of the parser, the TypeError of \<open>parsed.certificates\<close> on \<open>null\<close>),
  then the \<open>catch\<close> that turns every exception into the empty store.
\<close>

definition readDb_try :: "fs \<Rightarrow> db option" where
  "readDb_try F =
     (case DATA_FILE F of
        Unreadable \<Rightarrow> None
      | Unparsable \<Rightarrow> None
      | Parses parsed \<Rightarrow>
          (case get_prop parsed (js ''certificates'') of
             Inl e \<Rightarrow> None
           | Inr None \<Rightarrow> Some \<lparr>certificates = JArr []\<rparr>
           | Inr (Some c) \<Rightarrow> Some \<lparr>certificates = (if truthy c then c else JArr [])\<rparr>))"

definition readDb :: "fs \<Rightarrow> db" where
  "readDb F = (case readDb_try F of Some d \<Rightarrow> d | None \<Rightarrow> \<lparr>certificates = JArr []\<rparr>)"

text \<open>
  \<open>writeDb\<close>: \<open>fs.mkdir\<close> of the data directory, then \<open>fs.writeFile\<close> of
  \<open>JSON.stringify(db, null, 2)\<close>. A strict prefix of that text is no JSON document, since the
  brace that closes the document is its last character.
\<close>

definition db_json :: "db \<Rightarrow> json" where
  "db_json d = JObj [(js ''certificates'', certificates d)]"

definition writeDb :: "io \<Rightarrow> fs \<Rightarrow> db \<Rightarrow> (js_error + unit) \<times> fs \<times> fs_call list" where
  "writeDb W F d =
     (case mkdir_data W of
        Some e \<Rightarrow> (Inl (Rejected e), F, [Mkdir DataDir])
      | None \<Rightarrow>
          (case writeFile_DATA_FILE W of
             Completes \<Rightarrow>
               (Inr (), F\<lparr>DATA_FILE := Parses (stringify_parse (db_json d))\<rparr>,
                [Mkdir DataDir, WriteStore (db_json d)])
           | Rejects e l \<Rightarrow>
               (Inl (Rejected e),
                F\<lparr>DATA_FILE :=
                    (case l of
                       Untouched \<Rightarrow> DATA_FILE F
                     | Prefix n \<Rightarrow> Unparsable
                     | Whole \<Rightarrow> Parses (stringify_parse (db_json d)))\<rparr>,
                [Mkdir DataDir, WriteStore (db_json d)])))"

text \<open>\<open>md5Buffer\<close>: the digest in hexadecimal.\<close>

definition md5Buffer :: "byte list \<Rightarrow> js_string" where
  "md5Buffer buf = hex (MD5 buf)"

text \<open>The callback \<open>c => c.md5 === md5\<close>, and \<open>db.certificates.find\<close> with it.\<close>

definition md5_matches :: "js_string \<Rightarrow> json \<Rightarrow> js_error + bool" where
  "md5_matches md5 c =
     (case get_prop c (js ''md5'') of Inl e \<Rightarrow> Inl e | Inr v \<Rightarrow> Inr (v = Some (JStr md5)))"

definition certificates_find :: "db \<Rightarrow> js_string \<Rightarrow> js_error + json option" where
  "certificates_find d md5 =
     (case certificates d of
        JArr xs \<Rightarrow> array_find (md5_matches md5) xs
      | JNull \<Rightarrow> Inl (TypeError (js ''Cannot read properties of null (reading '' @ [0x27] @ js ''find'' @ [0x27] @ js '')''))
      | v \<Rightarrow> Inl (TypeError (js ''db.certificates.find is not a function'')))"

definition certificates_unshift :: "db \<Rightarrow> json \<Rightarrow> js_error + db" where
  "certificates_unshift d r =
     (case certificates d of
        JArr xs \<Rightarrow> Inr (d\<lparr>certificates := JArr (r # xs)\<rparr>)
      | JNull \<Rightarrow> Inl (TypeError (js ''Cannot read properties of null (reading '' @ [0x27] @ js ''unshift'' @ [0x27] @ js '')''))
      | v \<Rightarrow> Inl (TypeError (js ''db.certificates.unshift is not a function'')))"

section \<open>Requests and responses\<close>

text \<open>
  A request after the multipart parser: the text fields of \<open>req.body\<close> (absent fields
  are \<open>undefined\<close>) and \<open>req.file\<close>, the upload kept in memory.
\<close>

record uploaded_file =
  buffer :: "byte list option"
  mimetype :: js_string

record request =
  token :: "js_string option"
  studentName :: "js_string option"
  degree :: "js_string option"
  issueDate :: "js_string option"
  req_file :: "uploaded_file option"

text \<open>\<open>(v || "").toString().trim()\<close> on a text field.\<close>

definition field :: "js_string option \<Rightarrow> js_string" where
  "field v = trim (case v of None \<Rightarrow> [] | Some s \<Rightarrow> if s = [] then [] else s)"

text \<open>
  A response: the status and the object given to \<open>res.json\<close>. What a handler returns is
  the response, the filesystem it leaves, and the disk-changing calls it made.
\<close>

record response =
  status :: nat
  body :: json

type_synonym outcome = "response \<times> fs \<times> fs_call list"

definition res_json :: "nat \<Rightarrow> json \<Rightarrow> response" where
  "res_json st b = \<lparr>status = st, body = b\<rparr>"

definition failure :: "nat \<Rightarrow> string \<Rightarrow> response" where
  "failure st msg = res_json st (object [(''ok'', Some (JBool False)), (''message'', Some (JStr (js msg)))])"

definition server_error :: "js_error \<Rightarrow> response" where
  "server_error e =
     res_json 500 (object [(''ok'', Some (JBool False)), (''message'', Some (JStr (js ''Server error''))),
                           (''error'', Some (JStr (to_String e)))])"

section \<open>POST /api/university/upload\<close>

text \<open>The object literals of the handler: the record, and the two successful answers.\<close>

definition certificate_record ::
  "js_string \<Rightarrow> js_string \<Rightarrow> js_string \<Rightarrow> js_string \<Rightarrow> js_string \<Rightarrow> js_string \<Rightarrow> js_string \<Rightarrow> json" where
  "certificate_record ident md5 name deg date filename created =
     object
       [(''id'', Some (JStr ident)),
        (''md5'', Some (JStr md5)),
        (''studentName'', Some (JStr name)),
        (''degree'', Some (JStr deg)),
        (''issueDate'', Some (JStr date)),
        (''storedFile'', Some (JStr filename)),
        (''createdAt'', Some (JStr created))]"

definition already_exists :: "js_string \<Rightarrow> json \<Rightarrow> response" where
  "already_exists md5 exists =
     res_json 200 (object
       [(''ok'', Some (JBool True)),
        (''message'', Some (JStr (js ''Certificate already exists with the same MD5''))),
        (''md5'', Some (JStr md5)),
        (''certificate'', Some exists)])"

definition stored :: "js_string \<Rightarrow> json \<Rightarrow> response" where
  "stored md5 record =
     res_json 200 (object
       [(''ok'', Some (JBool True)),
        (''md5'', Some (JStr md5)),
        (''certificate'', Some record)])"

text \<open>
  Lines 107 to 146 of the handler, reached once the request is validated: the digest, the
  identifier, the write of the upload, the lookup, and the new record.
\<close>

definition upload_store ::
  "env \<Rightarrow> io \<Rightarrow> fs \<Rightarrow> byte list \<Rightarrow> js_string \<Rightarrow> js_string \<Rightarrow> js_string \<Rightarrow>
   (js_error + response) \<times> fs \<times> fs_call list" where
  "upload_store E W F buf name deg date =
     (let md5 = md5Buffer buf;
          ident = hex (randomBytes W);
          filename = ident @ js ''.pdf''
      in case mkdir_UPLOADS_DIR W of
           Some e \<Rightarrow> (Inl (Rejected e), F, [Mkdir UploadsDir])
         | None \<Rightarrow>
             (case writeFile_upload W of
                Rejects e l \<Rightarrow>
                  (Inl (Rejected e),
                   F\<lparr>UPLOADS_DIR :=
                       (case l of
                          Untouched \<Rightarrow> UPLOADS_DIR F
                        | Prefix n \<Rightarrow> (UPLOADS_DIR F)(filename \<mapsto> take n buf)
                        | Whole \<Rightarrow> (UPLOADS_DIR F)(filename \<mapsto> buf))\<rparr>,
                   [Mkdir UploadsDir, WriteBlob filename buf])
              | Completes \<Rightarrow>
                  (let F1 = F\<lparr>UPLOADS_DIR := (UPLOADS_DIR F)(filename \<mapsto> buf)\<rparr>;
                       cs = [Mkdir UploadsDir, WriteBlob filename buf];
                       d = readDb F1;
                       create =
                         (let record = certificate_record ident md5 name deg date filename (toISOString W)
                          in case certificates_unshift d record of
                               Inl e \<Rightarrow> (Inl e, F1, cs)
                             | Inr d' \<Rightarrow>
                                 (case writeDb W F1 d' of
                                    (Inl e, F2, cs2) \<Rightarrow> (Inl e, F2, cs @ cs2)
                                  | (Inr u, F2, cs2) \<Rightarrow> (Inr (stored md5 record), F2, cs @ cs2)))
                   in case certificates_find d md5 of
                        Inl e \<Rightarrow> (Inl e, F1, cs)
                      | Inr None \<Rightarrow> create
                      | Inr (Some exists) \<Rightarrow>
                          if truthy exists then (Inr (already_exists md5 exists), F1, cs)
                          else create)))"

text \<open>The body of the handler's \<open>try\<close> block: the four checks, in the source's order.\<close>

definition upload_try ::
  "env \<Rightarrow> io \<Rightarrow> fs \<Rightarrow> request \<Rightarrow> (js_error + response) \<times> fs \<times> fs_call list" where
  "upload_try E W F req =
     (let tok = field (token req)
      in if tok = [] \<or> Some tok \<noteq> ADMIN_TOKEN E then
           (Inr (failure 401 ''Unauthorized (token)''), F, [])
         else
           (case req_file req of
              None \<Rightarrow> (Inr (failure 400 ''PDF file is required''), F, [])
            | Some f \<Rightarrow>
                (case buffer f of
                   None \<Rightarrow> (Inr (failure 400 ''PDF file is required''), F, [])
                 | Some buf \<Rightarrow>
                     if mimetype f \<noteq> js ''application/pdf'' then
                       (Inr (failure 400 ''Only PDF is allowed''), F, [])
                     else
                       (let name = field (studentName req);
                            deg = field (degree req);
                            date = field (issueDate req)
                        in if name = [] \<or> deg = [] \<or> date = [] then
                             (Inr (failure 400 ''Missing fields''), F, [])
                           else upload_store E W F buf name deg date))))"

text \<open>The handler: the \<open>try\<close> block, and the \<open>catch\<close> that answers 500.\<close>

definition upload_handler :: "env \<Rightarrow> io \<Rightarrow> fs \<Rightarrow> request \<Rightarrow> outcome" where
  "upload_handler E W F req =
     (case upload_try E W F req of
        (Inl e, F', cs) \<Rightarrow> (server_error e, F', cs)
      | (Inr r, F', cs) \<Rightarrow> (r, F', cs))"

section \<open>POST /api/verify\<close>

text \<open>
  The two successful answers. \<open>found\<close> is truthy where its properties are read, hence not
  \<open>null\<close>, and the reads do not throw; a property that \<open>found\<close> lacks is \<open>undefined\<close>.
\<close>

definition no_match :: "js_string \<Rightarrow> response" where
  "no_match md5 =
     res_json 200 (object
       [(''ok'', Some (JBool True)),
        (''valid'', Some (JBool False)),
        (''md5'', Some (JStr md5)),
        (''message'', Some (JStr (js ''No match found'')))])"

definition match :: "js_string \<Rightarrow> json \<Rightarrow> response" where
  "match md5 found =
     res_json 200 (object
       [(''ok'', Some (JBool True)),
        (''valid'', Some (JBool True)),
        (''md5'', Some (JStr md5)),
        (''certificate'', Some (object
           [(''studentName'', property found (js ''studentName'')),
            (''degree'', property found (js ''degree'')),
            (''issueDate'', property found (js ''issueDate'')),
            (''createdAt'', property found (js ''createdAt''))]))])"

definition verify_try ::
  "env \<Rightarrow> fs \<Rightarrow> request \<Rightarrow> (js_error + response) \<times> fs \<times> fs_call list" where
  "verify_try E F req =
     (case req_file req of
        None \<Rightarrow> (Inr (failure 400 ''PDF file is required''), F, [])
      | Some f \<Rightarrow>
          (case buffer f of
             None \<Rightarrow> (Inr (failure 400 ''PDF file is required''), F, [])
           | Some buf \<Rightarrow>
               if mimetype f \<noteq> js ''application/pdf'' then
                 (Inr (failure 400 ''Only PDF is allowed''), F, [])
               else
                 (let md5 = md5Buffer buf;
                      d = readDb F
                  in case certificates_find d md5 of
                       Inl e \<Rightarrow> (Inl e, F, [])
                     | Inr None \<Rightarrow> (Inr (no_match md5), F, [])
                     | Inr (Some found) \<Rightarrow>
                         if \<not> truthy found then (Inr (no_match md5), F, [])
                         else (Inr (match md5 found), F, []))))"

definition verify_handler :: "env \<Rightarrow> fs \<Rightarrow> request \<Rightarrow> outcome" where
  "verify_handler E F req =
     (case verify_try E F req of
        (Inl e, F', cs) \<Rightarrow> (server_error e, F', cs)
      | (Inr r, F', cs) \<Rightarrow> (r, F', cs))"

section \<open>Notions used by the properties\<close>

text \<open>
  The checks of the upload handler as predicates on a request: the token check, the file
  checks with the bytes they let through, and the check of the three text fields.
\<close>

definition authorized :: "env \<Rightarrow> request \<Rightarrow> bool" where
  "authorized E req \<longleftrightarrow> field (token req) \<noteq> [] \<and> ADMIN_TOKEN E = Some (field (token req))"

definition no_file :: "request \<Rightarrow> bool" where
  "no_file req = (case req_file req of None \<Rightarrow> True | Some f \<Rightarrow> buffer f = None)"

definition has_pdf :: "request \<Rightarrow> byte list \<Rightarrow> bool" where
  "has_pdf req B =
     (case req_file req of
        None \<Rightarrow> False
      | Some f \<Rightarrow> buffer f = Some B \<and> mimetype f = js ''application/pdf'')"

definition fields_present :: "request \<Rightarrow> bool" where
  "fields_present req \<longleftrightarrow>
     field (studentName req) \<noteq> [] \<and> field (degree req) \<noteq> [] \<and> field (issueDate req) \<noteq> []"

text \<open>The filesystem calls of a request complete: those of the archive, those of the store.\<close>

definition blob_io_ok :: "io \<Rightarrow> bool" where
  "blob_io_ok W \<longleftrightarrow> mkdir_UPLOADS_DIR W = None \<and> writeFile_upload W = Completes"

definition store_io_ok :: "io \<Rightarrow> bool" where
  "store_io_ok W \<longleftrightarrow> mkdir_data W = None \<and> writeFile_DATA_FILE W = Completes"

text \<open>
  The records of the store as \<open>readDb\<close> gives them, the digest of a record (its \<open>md5\<close>
  property when that is a string, the only values \<open>c.md5 === md5\<close> can match), and the
  invariant: no digest occurs in two records.
\<close>

definition store_records :: "fs \<Rightarrow> json list" where
  "store_records F = (case certificates (readDb F) of JArr xs \<Rightarrow> xs | _ \<Rightarrow> [])"

definition digest_of :: "json \<Rightarrow> js_string option" where
  "digest_of c = (case property c (js ''md5'') of Some (JStr d) \<Rightarrow> Some d | _ \<Rightarrow> None)"

definition digests :: "json list \<Rightarrow> js_string list" where
  "digests xs = List.map_filter digest_of xs"

definition one_per_digest :: "fs \<Rightarrow> bool" where
  "one_per_digest F \<longleftrightarrow> distinct (digests (store_records F))"

text \<open>
  Sequential operation: the requests are served one after the other, each on the disk the
  one before leaves. A registration comes with what the outside world decides during it.
\<close>

datatype call = Upload io request | Verify request

fun run :: "env \<Rightarrow> fs \<Rightarrow> call list \<Rightarrow> fs" where
  "run E F [] = F"
| "run E F (Upload W req # cs) = run E (fst (snd (upload_handler E W F req))) cs"
| "run E F (Verify req # cs) = run E (fst (snd (verify_handler E F req))) cs"

text \<open>A property of the \<open>certificate\<close> object of a response.\<close>

definition certificate_field :: "response \<Rightarrow> string \<Rightarrow> json option" where
  "certificate_field r k =
     (case property (body r) (js ''certificate'') of Some c \<Rightarrow> property c (js k) | None \<Rightarrow> None)"

text \<open>The record that lines 133 to 141 build for a validated request with the bytes \<open>B\<close>.\<close>

definition new_record :: "env \<Rightarrow> io \<Rightarrow> byte list \<Rightarrow> request \<Rightarrow> json" where
  "new_record E W B req =
     certificate_record (hex (randomBytes W)) (md5Buffer B)
       (field (studentName req)) (field (degree req)) (field (issueDate req))
       (hex (randomBytes W) @ js ''.pdf'') (toISOString W)"

text \<open>The property names of an object (\<open>Object.keys\<close>), and those of a response's certificate.\<close>

definition keys :: "json \<Rightarrow> js_string list" where
  "keys v = (case v of JObj kvs \<Rightarrow> map fst kvs | _ \<Rightarrow> [])"

definition certificate_keys :: "response \<Rightarrow> js_string list" where
  "certificate_keys r =
     (case property (body r) (js ''certificate'') of None \<Rightarrow> [] | Some c \<Rightarrow> keys c)"

section \<open>Example inputs\<close>

text \<open>
  A configuration, request environments in which every filesystem call completes and one in
  which the disk is full, an empty disk, the four bytes \<open>%PDF\<close>, and requests.
\<close>

definition ex_env :: env where
  "ex_env = \<lparr>ADMIN_TOKEN = Some (js ''s3cret'')\<rparr>"

definition ex_io :: io where
  "ex_io = \<lparr>randomBytes = [0x01, 0xAB, 0x00, 0xFF, 0x10, 0x2C, 0x7E, 0x99],
            toISOString = js ''2024-01-01T00:00:00.000Z'',
            mkdir_UPLOADS_DIR = None, writeFile_upload = Completes,
            mkdir_data = None, writeFile_DATA_FILE = Completes\<rparr>"

definition ex_io_later :: io where
  "ex_io_later = \<lparr>randomBytes = [0x5E, 0x11, 0x42, 0x07, 0xC3, 0x90, 0x0D, 0xF4],
            toISOString = js ''2024-02-02T12:00:00.000Z'',
            mkdir_UPLOADS_DIR = None, writeFile_upload = Completes,
            mkdir_data = None, writeFile_DATA_FILE = Completes\<rparr>"

definition ex_io_disk_full :: io where
  "ex_io_disk_full = ex_io\<lparr>writeFile_upload := Rejects (js ''Error: ENOSPC: no space left on device, write'') (Prefix 0)\<rparr>"

definition ex_fs :: fs where
  "ex_fs = \<lparr>DATA_FILE = Unreadable, UPLOADS_DIR = Map.empty\<rparr>"

definition ex_pdf :: "byte list" where
  "ex_pdf = [0x25, 0x50, 0x44, 0x46]"

definition req_alice :: request where
  "req_alice = \<lparr>token = Some (js ''s3cret''), studentName = Some (js ''Alice''),
                degree = Some (js ''BSc''), issueDate = Some (js ''2024-01-01''),
                req_file = Some \<lparr>buffer = Some ex_pdf, mimetype = js ''application/pdf''\<rparr>\<rparr>"

definition req_bob :: request where
  "req_bob = \<lparr>token = Some (js ''s3cret''), studentName = Some (js ''Bob''),
              degree = Some (js ''MSc''), issueDate = Some (js ''2023-06-30''),
              req_file = Some \<lparr>buffer = Some ex_pdf, mimetype = js ''application/pdf''\<rparr>\<rparr>"

definition req_padded :: request where
  "req_padded = \<lparr>token = Some (js '' s3cret ''), studentName = Some (js ''  Alice ''),
                 degree = Some (js ''BSc ''), issueDate = Some (js '' 2024-01-01''),
                 req_file = Some \<lparr>buffer = Some ex_pdf, mimetype = js ''application/pdf''\<rparr>\<rparr>"

definition req_empty_pdf :: request where
  "req_empty_pdf = req_alice\<lparr>req_file := Some \<lparr>buffer = Some [], mimetype = js ''application/pdf''\<rparr>\<rparr>"

definition req_no_file :: request where
  "req_no_file = req_alice\<lparr>req_file := None\<rparr>"

definition req_bad_token :: request where
  "req_bad_token = req_alice\<lparr>token := Some (js ''guess'')\<rparr>"

text \<open>
  A disk whose snapshot reads \<open>{"certificates": 5}\<close>, and the disk after Bob's document
  is registered on the empty one.
\<close>

definition ex_fs_number :: fs where
  "ex_fs_number = \<lparr>DATA_FILE = Parses (JObj [(js ''certificates'', JNum (Finite 5))]),
                   UPLOADS_DIR = Map.empty\<rparr>"

definition ex_fs_bob :: fs where
  "ex_fs_bob = fst (snd (upload_handler ex_env ex_io ex_fs req_bob))"

definition ex_record_bob :: json where
  "ex_record_bob =
     certificate_record (js ''01ab00ff102c7e99'') (js ''bfa4b10a76324b166cfdad5e02a63730'') (js ''Bob'') (js ''MSc'')
       (js ''2023-06-30'') (js ''01ab00ff102c7e99.pdf'') (js ''2024-01-01T00:00:00.000Z'')"

definition ex_record_alice :: json where
  "ex_record_alice =
     certificate_record (js ''01ab00ff102c7e99'') (js ''bfa4b10a76324b166cfdad5e02a63730'') (js ''Alice'') (js ''BSc'')
       (js ''2024-01-01'') (js ''01ab00ff102c7e99.pdf'') (js ''2024-01-01T00:00:00.000Z'')"

section \<open>Facts about strings and responses\<close>

lemma unat_of_char: "unat (of_char c :: code_unit) = (of_char c :: nat)"
proof -
  define n :: nat where "n = of_char c"
  have "n mod 256 = n" by (simp add: n_def)
  then have "n < 256"
    by (metis mod_less_divisor zero_less_numeral)
  then have small: "n mod 65536 = n" by simp
  have "(of_char c :: code_unit) = of_nat n"
    by (simp add: n_def of_nat_of_char)
  then have "unat (of_char c :: code_unit) = n mod 65536"
    by (simp add: unat_of_nat)
  with small show ?thesis by (simp add: n_def)
qed

lemma js_eq_iff: "js a = js b \<longleftrightarrow> a = b"
proof -
  have "inj (of_char :: char \<Rightarrow> code_unit)"
  proof (rule injI)
    fix x y :: char
    assume "(of_char x :: code_unit) = of_char y"
    then have "unat (of_char x :: code_unit) = unat (of_char y :: code_unit)" by simp
    then show "x = y" by (simp add: unat_of_char)
  qed
  then show ?thesis by (auto simp: js_def inj_map_eq_map)
qed

lemma status_failure: "status (failure s m) = s"
  by (simp add: failure_def res_json_def)

lemma status_server_error: "status (server_error e) = 500"
  by (simp add: server_error_def res_json_def)

lemma body_server_error:
  "property (body (server_error e)) (js ''ok'') = Some (JBool False)"
  "property (body (server_error e)) (js ''message'') = Some (JStr (js ''Server error''))"
  "property (body (server_error e)) (js ''error'') = Some (JStr (to_String e))"
  by (simp_all add: server_error_def res_json_def object_def js_eq_iff)

lemma failure_eq_iff: "failure s m = failure s' m' \<longleftrightarrow> s = s' \<and> m = m'"
  by (auto simp: failure_def res_json_def object_def js_eq_iff)

lemma status_simps:
  "status (stored m c) = 200" "status (already_exists m c) = 200"
  "status (no_match m) = 200" "status (match m c) = 200"
  by (simp_all add: stored_def already_exists_def no_match_def match_def res_json_def)

lemma message_simps:
  "property (body (stored m c)) (js ''message'') = None"
  "property (body (already_exists m c)) (js ''message'') =
     Some (JStr (js ''Certificate already exists with the same MD5''))"
  by (simp_all add: stored_def already_exists_def res_json_def object_def js_eq_iff)

lemma stored_neq_already_exists: "stored m c \<noteq> already_exists m' c'"
  by (metis message_simps option.distinct(1))

lemma stored_eq_iff: "stored m r = stored m' r' \<longleftrightarrow> m = m' \<and> r = r'"
  by (auto simp: stored_def res_json_def object_def)

lemma failure_neq:
  "s \<noteq> 200 \<Longrightarrow> failure s msg \<noteq> stored m c"
  "s \<noteq> 200 \<Longrightarrow> failure s msg \<noteq> already_exists m c"
  "s \<noteq> 200 \<Longrightarrow> failure s msg \<noteq> no_match m"
  "s \<noteq> 200 \<Longrightarrow> failure s msg \<noteq> match m c"
  "s \<noteq> 500 \<Longrightarrow> failure s msg \<noteq> server_error e"
  by (metis status_failure status_simps status_server_error)+

lemma server_error_neq:
  "server_error e \<noteq> stored m c" "server_error e \<noteq> already_exists m c"
  "server_error e \<noteq> no_match m" "server_error e \<noteq> match m c"
  by (auto simp: server_error_def stored_def already_exists_def no_match_def match_def res_json_def)

text \<open>What each answer carries.\<close>

lemma body_already_exists:
  "keys (body (already_exists m c)) = [js ''ok'', js ''message'', js ''md5'', js ''certificate'']"
  "property (body (already_exists m c)) (js ''ok'') = Some (JBool True)"
  "property (body (already_exists m c)) (js ''md5'') = Some (JStr m)"
  "property (body (already_exists m c)) (js ''certificate'') = Some c"
  by (simp_all add: already_exists_def res_json_def object_def keys_def js_eq_iff)

lemma body_stored:
  "keys (body (stored m c)) = [js ''ok'', js ''md5'', js ''certificate'']"
  "property (body (stored m c)) (js ''ok'') = Some (JBool True)"
  "property (body (stored m c)) (js ''md5'') = Some (JStr m)"
  "property (body (stored m c)) (js ''certificate'') = Some c"
  by (simp_all add: stored_def res_json_def object_def keys_def js_eq_iff)

lemma body_server_error_certificate:
  "property (body (server_error e)) (js ''certificate'') = None"
  "property (body (server_error e)) (js ''md5'') = None"
  by (simp_all add: server_error_def res_json_def object_def js_eq_iff)

lemma body_no_match:
  "property (body (no_match m)) (js ''ok'') = Some (JBool True)"
  "property (body (no_match m)) (js ''valid'') = Some (JBool False)"
  "property (body (no_match m)) (js ''md5'') = Some (JStr m)"
  "property (body (no_match m)) (js ''message'') = Some (JStr (js ''No match found''))"
  "property (body (no_match m)) (js ''certificate'') = None"
  by (simp_all add: no_match_def res_json_def object_def js_eq_iff)

lemma body_match:
  "property (body (match m c)) (js ''ok'') = Some (JBool True)"
  "property (body (match m c)) (js ''valid'') = Some (JBool True)"
  "property (body (match m c)) (js ''md5'') = Some (JStr m)"
  "property (body (match m c)) (js ''message'') = None"
  by (simp_all add: match_def res_json_def object_def js_eq_iff)

section \<open>Facts about trim\<close>

lemma rev_dropWhile_split:
  "xs = rev (dropWhile P (rev xs)) @ rev (takeWhile P (rev xs))"
  by (metis rev_append rev_rev_ident takeWhile_dropWhile_id)

lemma trim_decompose:
  "\<exists>l r. s = l @ trim s @ r \<and> (\<forall>c \<in> set l. is_white_space c) \<and> (\<forall>c \<in> set r. is_white_space c)"
proof -
  define d where "d = dropWhile is_white_space s"
  have 1: "s = takeWhile is_white_space s @ d" by (simp add: d_def)
  have 2: "d = trim s @ rev (takeWhile is_white_space (rev d))"
    unfolding trim_def d_def [symmetric] by (rule rev_dropWhile_split)
  have 3: "\<forall>c \<in> set (takeWhile is_white_space s). is_white_space c"
    by (auto dest: set_takeWhileD)
  have 4: "\<forall>c \<in> set (rev (takeWhile is_white_space (rev d))). is_white_space c"
    by (auto dest: set_takeWhileD)
  from 1 2 have "s = takeWhile is_white_space s @ trim s @ rev (takeWhile is_white_space (rev d))"
    by simp
  with 3 4 show ?thesis by blast
qed

lemma trim_ends:
  assumes "trim s \<noteq> []"
  shows "\<not> is_white_space (hd (trim s)) \<and> \<not> is_white_space (last (trim s))"
proof -
  define d where "d = dropWhile is_white_space s"
  define e where "e = dropWhile is_white_space (rev d)"
  have t: "trim s = rev e" by (simp add: trim_def d_def e_def)
  with assms have e: "e \<noteq> []" by simp
  then have "\<not> is_white_space (hd e)"
    unfolding e_def by (rule hd_dropWhile)
  moreover have "last (trim s) = hd e" using e t by (simp add: last_rev)
  ultimately have A: "\<not> is_white_space (last (trim s))" by simp
  have "d \<noteq> []"
  proof
    assume "d = []"
    then have "e = []" by (simp add: e_def)
    with e show False by simp
  qed
  then have hd_d: "\<not> is_white_space (hd d)"
    unfolding d_def by (rule hd_dropWhile)
  have "d = trim s @ rev (takeWhile is_white_space (rev d))"
    unfolding t e_def by (rule rev_dropWhile_split)
  with assms have "hd d = hd (trim s)" by (metis hd_append2)
  with hd_d have "\<not> is_white_space (hd (trim s))" by simp
  with A show ?thesis by simp
qed

lemma field_Some: "field (Some s) = trim s"
  by (simp add: field_def trim_def)

section \<open>Facts about the store and the lookup\<close>

lemma readDb_UPLOADS: "readDb (F\<lparr>UPLOADS_DIR := u\<rparr>) = readDb F"
  by (simp add: readDb_def readDb_try_def)

lemma readDb_cong: "DATA_FILE F' = DATA_FILE F \<Longrightarrow> readDb F' = readDb F"
  by (simp add: readDb_def readDb_try_def)

lemma readDb_empty:
  "DATA_FILE F = Unreadable \<Longrightarrow> readDb F = \<lparr>certificates = JArr []\<rparr>"
  "DATA_FILE F = Unparsable \<Longrightarrow> readDb F = \<lparr>certificates = JArr []\<rparr>"
  "DATA_FILE F = Parses JNull \<Longrightarrow> readDb F = \<lparr>certificates = JArr []\<rparr>"
  "DATA_FILE F = Parses v \<Longrightarrow> property v (js ''certificates'') = None \<Longrightarrow>
     readDb F = \<lparr>certificates = JArr []\<rparr>"
  "DATA_FILE F = Parses v \<Longrightarrow> property v (js ''certificates'') = Some c \<Longrightarrow> \<not> truthy c \<Longrightarrow>
     readDb F = \<lparr>certificates = JArr []\<rparr>"
  "DATA_FILE F = Parses v \<Longrightarrow> property v (js ''certificates'') = Some c \<Longrightarrow> truthy c \<Longrightarrow>
     readDb F = \<lparr>certificates = c\<rparr>"
  by (auto simp: readDb_def readDb_try_def get_prop_def)

lemma store_records_written:
  "DATA_FILE F' = Parses (stringify_parse (JObj [(js ''certificates'', JArr xs)])) \<Longrightarrow>
   store_records F' = map stringify_parse xs"
  by (simp add: store_records_def readDb_def readDb_try_def get_prop_def)

lemma store_records_Unparsable: "DATA_FILE F' = Unparsable \<Longrightarrow> store_records F' = []"
  by (simp add: store_records_def readDb_def readDb_try_def)

lemma md5_matches_cases:
  "md5_matches m c = Inl e \<Longrightarrow> c = JNull"
  "md5_matches m c = Inr True \<Longrightarrow> truthy c \<and> digest_of c = Some m"
  "md5_matches m c = Inr False \<Longrightarrow> c \<noteq> JNull \<and> digest_of c \<noteq> Some m"
  by (cases c; auto simp: md5_matches_def get_prop_def digest_of_def split: option.splits json.splits if_splits)+

lemma array_find_Some:
  "array_find (md5_matches m) xs = Inr (Some c) \<Longrightarrow> truthy c \<and> digest_of c = Some m \<and> c \<in> set xs"
  by (induction xs) (auto split: sum.splits bool.splits dest: md5_matches_cases)

lemma array_find_None:
  "array_find (md5_matches m) xs = Inr None \<Longrightarrow> m \<notin> set (digests xs) \<and> JNull \<notin> set xs"
  by (induction xs)
    (auto simp: digests_def List.map_filter_simps split: sum.splits bool.splits option.splits
      dest: md5_matches_cases)

lemma certificates_find_Some:
  "certificates_find (readDb F) m = Inr (Some c) \<Longrightarrow>
   truthy c \<and> digest_of c = Some m \<and> c \<in> set (store_records F)"
  by (auto simp: certificates_find_def store_records_def split: json.splits dest: array_find_Some)

lemma certificates_find_None:
  "certificates_find (readDb F) m = Inr None \<Longrightarrow>
   certificates (readDb F) = JArr (store_records F) \<and> m \<notin> set (digests (store_records F)) \<and>
   JNull \<notin> set (store_records F)"
  by (auto simp: certificates_find_def store_records_def split: json.splits dest: array_find_None)

lemma md5_matches_certificate_record:
  "md5_matches m (certificate_record a m c d e f g) = Inr True"
  by (simp add: md5_matches_def get_prop_def certificate_record_def object_def js_eq_iff)

text \<open>Writing the store and reading it back keeps the digest of every record.\<close>

lemma stringify_parse_JStr: "stringify_parse v = JStr s \<longleftrightarrow> v = JStr s"
  by (cases v) (auto split: js_number.splits)

lemma map_of_stringify:
  "map_of (map (map_prod id stringify_parse) kvs) k = map_option stringify_parse (map_of kvs k)"
  by (induction kvs) auto

lemma property_stringify_JStr:
  "property (stringify_parse c) k = Some (JStr s) \<longleftrightarrow> property c k = Some (JStr s)"
proof (cases c)
  case (JObj kvs)
  then show ?thesis
    by (cases "map_of kvs k") (simp_all add: map_of_stringify stringify_parse_JStr)
next
  case (JNum n)
  then show ?thesis by (cases n) simp_all
qed simp_all

lemma digest_of_Some: "digest_of c = Some d \<longleftrightarrow> property c (js ''md5'') = Some (JStr d)"
  by (auto simp: digest_of_def split: option.splits json.splits)

lemma digest_of_stringify: "digest_of (stringify_parse c) = digest_of c"
proof (cases "digest_of c")
  case None
  then have "\<forall>d. digest_of c \<noteq> Some d" by simp
  then have "\<forall>d. digest_of (stringify_parse c) \<noteq> Some d"
    by (simp only: digest_of_Some property_stringify_JStr) simp
  with None show ?thesis by (cases "digest_of (stringify_parse c)") auto
next
  case (Some d)
  then have "property c (js ''md5'') = Some (JStr d)" by (simp only: digest_of_Some)
  then have "property (stringify_parse c) (js ''md5'') = Some (JStr d)"
    by (simp only: property_stringify_JStr)
  then have "digest_of (stringify_parse c) = Some d" by (simp only: digest_of_Some)
  with Some show ?thesis by simp
qed

lemma digests_stringify: "digests (map stringify_parse xs) = digests xs"
  by (induction xs) (auto simp: digests_def List.map_filter_simps digest_of_stringify split: option.splits)

lemma stringify_certificate_record:
  "stringify_parse (certificate_record a b c d e f g) = certificate_record a b c d e f g"
  by (simp add: certificate_record_def object_def)

lemma digest_of_certificate_record: "digest_of (certificate_record a m c d e f g) = Some m"
  by (simp add: certificate_record_def object_def digest_of_def js_eq_iff)

section \<open>The paths of the upload handler\<close>

lemma status_upload_store:
  "upload_store E W F buf n g i = (Inr r, F', cs) \<Longrightarrow> status r = 200"
  by (auto simp: upload_store_def Let_def res_json_def stored_def already_exists_def
      split: option.splits write_outcome.splits sum.splits if_splits prod.splits)

lemma upload_unauthorized:
  "\<not> authorized E req \<Longrightarrow> upload_handler E W F req = (failure 401 ''Unauthorized (token)'', F, [])"
  by (auto simp: upload_handler_def upload_try_def authorized_def Let_def)

lemma upload_authorized_status:
  "authorized E req \<Longrightarrow> status (fst (upload_handler E W F req)) \<noteq> 401"
  by (auto simp: upload_handler_def upload_try_def authorized_def Let_def status_failure
      status_server_error
      split: option.splits sum.splits prod.splits dest: status_upload_store)

lemma upload_no_file:
  "no_file req \<Longrightarrow> authorized E req \<Longrightarrow>
   upload_handler E W F req = (failure 400 ''PDF file is required'', F, [])"
  by (auto simp: upload_handler_def upload_try_def no_file_def authorized_def Let_def split: option.splits)

lemma upload_try_status:
  "upload_try E W F req = (Inr r, F', cs) \<Longrightarrow> \<not> no_file req \<Longrightarrow>
   status r = 200 \<or> r = failure 400 ''Only PDF is allowed'' \<or> r = failure 400 ''Missing fields''
   \<or> r = failure 401 ''Unauthorized (token)''"
  by (auto simp: upload_try_def no_file_def Let_def
      split: option.splits if_splits dest: status_upload_store)

lemma upload_file_present:
  assumes "\<not> no_file req"
  shows "fst (upload_handler E W F req) \<noteq> failure 400 ''PDF file is required''"
proof (cases "upload_try E W F req")
  case (fields x F' cs)
  show ?thesis
  proof (cases x)
    case (Inl e)
    with fields show ?thesis
      by (simp add: upload_handler_def failure_neq(5)[symmetric])
  next
    case (Inr r)
    with fields upload_try_status[of E W F req r F' cs] assms
    have "status r = 200 \<or> r = failure 400 ''Only PDF is allowed'' \<or> r = failure 400 ''Missing fields''
       \<or> r = failure 401 ''Unauthorized (token)''" by simp
    then have "r \<noteq> failure 400 ''PDF file is required''"
      by (auto simp: status_failure failure_eq_iff)
    with fields Inr show ?thesis by (simp add: upload_handler_def)
  qed
qed

lemma upload_try_valid:
  "authorized E req \<Longrightarrow> has_pdf req B \<Longrightarrow> fields_present req \<Longrightarrow>
   upload_try E W F req =
     upload_store E W F B (field (studentName req)) (field (degree req)) (field (issueDate req))"
  by (auto simp: upload_try_def authorized_def has_pdf_def fields_present_def Let_def
      split: option.splits)

lemma upload_store_duplicate:
  assumes "blob_io_ok W" "certificates_find (readDb F) (md5Buffer B) = Inr (Some c)"
  shows "upload_store E W F B n g i =
           (Inr (already_exists (md5Buffer B) c),
            F\<lparr>UPLOADS_DIR := (UPLOADS_DIR F)(hex (randomBytes W) @ js ''.pdf'' \<mapsto> B)\<rparr>,
            [Mkdir UploadsDir, WriteBlob (hex (randomBytes W) @ js ''.pdf'') B])"
  using assms certificates_find_Some[OF assms(2)]
  by (simp add: upload_store_def blob_io_ok_def Let_def readDb_UPLOADS)

lemma upload_store_create:
  assumes "blob_io_ok W" "store_io_ok W" "certificates_find (readDb F) (md5Buffer B) = Inr None"
  shows "upload_store E W F B n g i =
           (let fn = hex (randomBytes W) @ js ''.pdf'';
                r = certificate_record (hex (randomBytes W)) (md5Buffer B) n g i fn (toISOString W);
                doc = JObj [(js ''certificates'', JArr (r # store_records F))]
            in (Inr (stored (md5Buffer B) r),
                F\<lparr>DATA_FILE := Parses (stringify_parse doc),
                  UPLOADS_DIR := (UPLOADS_DIR F)(fn \<mapsto> B)\<rparr>,
                [Mkdir UploadsDir, WriteBlob fn B, Mkdir DataDir, WriteStore doc]))"
  using assms certificates_find_None[OF assms(3)]
  by (simp add: upload_store_def blob_io_ok_def store_io_ok_def Let_def readDb_UPLOADS
      certificates_unshift_def writeDb_def db_json_def)

lemma upload_store_blob_fails:
  assumes "\<not> blob_io_ok W"
  shows "\<exists>e F' cs. upload_store E W F B n g i = (Inl (Rejected e), F', cs) \<and>
           DATA_FILE F' = DATA_FILE F \<and> store_writes cs = 0"
  using assms
  by (auto simp: upload_store_def blob_io_ok_def Let_def store_writes_def
      split: option.splits write_outcome.splits)

lemma upload_store_calls:
  "upload_store E W F B n g i = (x, F', cs) \<Longrightarrow>
   (x = Inr (already_exists m c) \<longrightarrow> blob_writes cs = 1 \<and> store_writes cs = 0) \<and>
   (x = Inr (stored m c) \<longrightarrow> blob_writes cs = 1 \<and> store_writes cs = 1)"
  by (auto simp: upload_store_def Let_def blob_writes_def store_writes_def writeDb_def
      stored_neq_already_exists stored_neq_already_exists[symmetric]
      split: option.splits write_outcome.splits sum.splits if_splits prod.splits)

lemma upload_try_calls:
  "upload_try E W F req = (x, F', cs) \<Longrightarrow>
   (x = Inr (already_exists m c) \<longrightarrow> blob_writes cs = 1 \<and> store_writes cs = 0) \<and>
   (x = Inr (stored m c) \<longrightarrow> blob_writes cs = 1 \<and> store_writes cs = 1)"
  by (auto simp: upload_try_def Let_def failure_neq
      split: option.splits if_splits dest: upload_store_calls)

text \<open>The calls of the two successful paths, and what they leave in the archive.\<close>

lemma upload_store_paths:
  assumes "upload_store E W F B n g i = (x, F', cs)"
  shows "(x = Inr (already_exists m c) \<longrightarrow>
           cs = [Mkdir UploadsDir, WriteBlob (hex (randomBytes W) @ js ''.pdf'') B] \<and>
           F' = F\<lparr>UPLOADS_DIR := (UPLOADS_DIR F)(hex (randomBytes W) @ js ''.pdf'' \<mapsto> B)\<rparr>) \<and>
         (x = Inr (stored m c) \<longrightarrow>
           cs = [Mkdir UploadsDir, WriteBlob (hex (randomBytes W) @ js ''.pdf'') B, Mkdir DataDir,
                 WriteStore (JObj [(js ''certificates'', JArr (c # store_records F))])] \<and>
           UPLOADS_DIR F' = (UPLOADS_DIR F)(hex (randomBytes W) @ js ''.pdf'' \<mapsto> B))"
proof (cases "certificates_find (readDb F) (md5Buffer B)")
  case (Inl e)
  with assms show ?thesis
    by (auto simp: upload_store_def Let_def readDb_UPLOADS
        split: option.splits write_outcome.splits)
next
  case (Inr found)
  show ?thesis
  proof (cases found)
    case (Some d)
    with Inr certificates_find_Some[of F "md5Buffer B" d] assms show ?thesis
      by (auto simp: upload_store_def Let_def readDb_UPLOADS stored_neq_already_exists[symmetric]
          split: option.splits write_outcome.splits)
  next
    case None
    with Inr certificates_find_None[of F "md5Buffer B"] assms show ?thesis
      by (auto simp: upload_store_def Let_def readDb_UPLOADS certificates_unshift_def writeDb_def
          db_json_def stored_eq_iff stored_neq_already_exists
          split: option.splits write_outcome.splits leftover.splits)
  qed
qed

lemma upload_try_paths:
  assumes "upload_try E W F req = (Inr r, F', cs)" "r = already_exists m c \<or> r = stored m c"
  shows "\<exists>B. has_pdf req B \<and>
           upload_store E W F B (field (studentName req)) (field (degree req)) (field (issueDate req)) =
             (Inr r, F', cs)"
  using assms
  by (auto simp: upload_try_def Let_def failure_neq has_pdf_def split: option.splits if_splits)

lemma upload_try_Inr_status:
  "upload_try E W F req = (Inr r, F', cs) \<Longrightarrow> status r \<in> {200, 400, 401}"
  by (auto simp: upload_try_def Let_def status_failure
      split: option.splits if_splits dest: status_upload_store)

lemma upload_handler_500:
  "status (fst (upload_handler E W F req)) = 500 \<longleftrightarrow> (\<exists>e. fst (upload_try E W F req) = Inl e)"
proof (cases "upload_try E W F req")
  case (fields x F' cs)
  show ?thesis
  proof (cases x)
    case (Inl e)
    with fields show ?thesis by (simp add: upload_handler_def status_server_error)
  next
    case (Inr r)
    with fields upload_try_Inr_status[of E W F req r F' cs] show ?thesis
      by (auto simp: upload_handler_def)
  qed
qed

text \<open>
  What a request does to the snapshot: nothing, or it leaves it unparsable (a store write
  rejected midway), or it puts one record with a new digest in front of the others.
\<close>

lemma upload_store_DATA_FILE:
  assumes "upload_store E W F B n g i = (x, F', cs)"
  shows "DATA_FILE F' = DATA_FILE F \<or> DATA_FILE F' = Unparsable \<or>
         (certificates_find (readDb F) (md5Buffer B) = Inr None \<and>
          DATA_FILE F' = Parses (stringify_parse (JObj [(js ''certificates'',
            JArr (certificate_record (hex (randomBytes W)) (md5Buffer B) n g i
                    (hex (randomBytes W) @ js ''.pdf'') (toISOString W) # store_records F))])))"
proof (cases "certificates_find (readDb F) (md5Buffer B)")
  case (Inl e)
  with assms show ?thesis
    by (auto simp: upload_store_def Let_def readDb_UPLOADS
        split: option.splits write_outcome.splits)
next
  case (Inr found)
  show ?thesis
  proof (cases found)
    case (Some c)
    with Inr certificates_find_Some[of F "md5Buffer B" c] assms show ?thesis
      by (auto simp: upload_store_def Let_def readDb_UPLOADS
          split: option.splits write_outcome.splits)
  next
    case None
    with Inr certificates_find_None[of F "md5Buffer B"] assms show ?thesis
      by (auto simp: upload_store_def Let_def readDb_UPLOADS certificates_unshift_def writeDb_def
          db_json_def
          split: option.splits write_outcome.splits leftover.splits)
  qed
qed

lemma upload_store_existing_digest:
  assumes "upload_store E W F B n g i = (x, F', cs)"
    and "md5Buffer B \<in> set (digests (store_records F))"
  shows "DATA_FILE F' = DATA_FILE F"
proof (cases "certificates_find (readDb F) (md5Buffer B)")
  case (Inl e)
  with assms show ?thesis
    by (auto simp: upload_store_def Let_def readDb_UPLOADS
        split: option.splits write_outcome.splits)
next
  case (Inr found)
  show ?thesis
  proof (cases found)
    case (Some c)
    with Inr certificates_find_Some[of F "md5Buffer B" c] assms show ?thesis
      by (auto simp: upload_store_def Let_def readDb_UPLOADS
          split: option.splits write_outcome.splits)
  next
    case None
    with Inr certificates_find_None[of F "md5Buffer B"] assms(2) show ?thesis by simp
  qed
qed

lemma upload_store_stored:
  assumes "upload_store E W F B n g i = (Inr (stored m r), F', cs)"
  shows "m = md5Buffer B \<and>
         r = certificate_record (hex (randomBytes W)) (md5Buffer B) n g i
               (hex (randomBytes W) @ js ''.pdf'') (toISOString W) \<and>
         m \<notin> set (digests (store_records F)) \<and>
         store_records F' = r # map stringify_parse (store_records F)"
proof (cases "certificates_find (readDb F) (md5Buffer B)")
  case (Inl e)
  with assms show ?thesis
    by (auto simp: upload_store_def Let_def readDb_UPLOADS
        split: option.splits write_outcome.splits)
next
  case (Inr found)
  show ?thesis
  proof (cases found)
    case (Some c)
    with Inr certificates_find_Some[of F "md5Buffer B" c] assms show ?thesis
      by (auto simp: upload_store_def Let_def readDb_UPLOADS stored_neq_already_exists[symmetric]
          split: option.splits write_outcome.splits)
  next
    case None
    with Inr certificates_find_None[of F "md5Buffer B"] assms
    have *: "m = md5Buffer B \<and>
         r = certificate_record (hex (randomBytes W)) (md5Buffer B) n g i
               (hex (randomBytes W) @ js ''.pdf'') (toISOString W) \<and>
         m \<notin> set (digests (store_records F)) \<and>
         DATA_FILE F' = Parses (stringify_parse (JObj [(js ''certificates'', JArr (r # store_records F))]))"
      by (auto simp: upload_store_def Let_def readDb_UPLOADS certificates_unshift_def writeDb_def
          db_json_def stored_eq_iff
          split: option.splits write_outcome.splits leftover.splits)
    then have "store_records F' = map stringify_parse (r # store_records F)"
      by (intro store_records_written) blast
    moreover have "stringify_parse r = r"
      using * by (simp add: stringify_certificate_record)
    ultimately have "store_records F' = r # map stringify_parse (store_records F)" by simp
    with * show ?thesis by blast
  qed
qed

lemma upload_try_DATA_FILE:
  assumes "upload_try E W F req = (x, F', cs)"
  shows "DATA_FILE F' = DATA_FILE F \<or> DATA_FILE F' = Unparsable \<or>
         (\<exists>m r. digest_of r = Some m \<and> m \<notin> set (digests (store_records F)) \<and>
            DATA_FILE F' = Parses (stringify_parse (JObj [(js ''certificates'', JArr (r # store_records F))])))"
proof (cases "authorized E req \<and> fields_present req \<and> (\<exists>B. has_pdf req B)")
  case True
  then obtain B where B: "has_pdf req B" by blast
  with True assms
  have "upload_store E W F B (field (studentName req)) (field (degree req)) (field (issueDate req)) = (x, F', cs)"
    by (simp add: upload_try_valid)
  from upload_store_DATA_FILE[OF this] show ?thesis
    using certificates_find_None[of F "md5Buffer B"] digest_of_certificate_record
    by blast
next
  case False
  with assms have "F' = F"
    by (auto simp: upload_try_def authorized_def fields_present_def has_pdf_def Let_def
        split: option.splits if_splits)
  then show ?thesis by simp
qed

lemma one_per_digest_step:
  assumes "one_per_digest F"
    and "DATA_FILE F' = DATA_FILE F \<or> DATA_FILE F' = Unparsable \<or>
         (\<exists>m r. digest_of r = Some m \<and> m \<notin> set (digests (store_records F)) \<and>
            DATA_FILE F' = Parses (stringify_parse (JObj [(js ''certificates'', JArr (r # store_records F))])))"
  shows "one_per_digest F'"
  using assms(2)
proof (elim disjE exE conjE)
  assume "DATA_FILE F' = DATA_FILE F"
  then have "readDb F' = readDb F" by (rule readDb_cong)
  with assms(1) show ?thesis by (simp add: one_per_digest_def store_records_def)
next
  assume "DATA_FILE F' = Unparsable"
  then show ?thesis by (simp add: one_per_digest_def store_records_Unparsable digests_def List.map_filter_simps)
next
  fix m r
  assume r: "digest_of r = Some m" and m: "m \<notin> set (digests (store_records F))"
    and d: "DATA_FILE F' = Parses (stringify_parse (JObj [(js ''certificates'', JArr (r # store_records F))]))"
  from d have "store_records F' = map stringify_parse (r # store_records F)"
    by (rule store_records_written)
  then have "digests (store_records F') = digests (r # store_records F)"
    by (simp only: digests_stringify)
  also have "\<dots> = m # digests (store_records F)"
    using r by (simp add: digests_def List.map_filter_simps)
  finally show ?thesis using assms(1) m by (simp add: one_per_digest_def)
qed

lemma upload_try_existing_digest:
  assumes "upload_try E W F req = (x, F', cs)" "has_pdf req B"
    "md5Buffer B \<in> set (digests (store_records F))"
  shows "DATA_FILE F' = DATA_FILE F"
proof (cases "authorized E req \<and> fields_present req")
  case True
  with assms(1,2)
  have "upload_store E W F B (field (studentName req)) (field (degree req)) (field (issueDate req)) = (x, F', cs)"
    by (simp add: upload_try_valid)
  then show ?thesis using assms(3) by (rule upload_store_existing_digest)
next
  case False
  with assms(1) have "F' = F"
    by (auto simp: upload_try_def authorized_def fields_present_def Let_def
        split: option.splits if_splits)
  then show ?thesis by simp
qed

lemma upload_try_stored:
  assumes "upload_try E W F req = (Inr (stored m r), F', cs)"
  shows "m \<notin> set (digests (store_records F)) \<and> digest_of r = Some m \<and>
         store_records F' = r # map stringify_parse (store_records F)"
proof -
  from assms obtain B where
    "upload_store E W F B (field (studentName req)) (field (degree req)) (field (issueDate req)) =
       (Inr (stored m r), F', cs)"
    by (auto simp: upload_try_def Let_def failure_neq split: option.splits if_splits)
  from upload_store_stored[OF this] show ?thesis
    by (auto simp: digest_of_certificate_record)
qed

lemma upload_handler_create:
  assumes "authorized E req" "has_pdf req B" "fields_present req" "blob_io_ok W" "store_io_ok W"
    "certificates_find (readDb F) (md5Buffer B) = Inr None"
  shows "fst (upload_handler E W F req) = stored (md5Buffer B) (new_record E W B req)"
    and "store_records (fst (snd (upload_handler E W F req))) =
           new_record E W B req # map stringify_parse (store_records F)"
    and "certificates_find (readDb (fst (snd (upload_handler E W F req)))) (md5Buffer B) =
           Inr (Some (new_record E W B req))"
    and "snd (snd (upload_handler E W F req)) =
           [Mkdir UploadsDir, WriteBlob (hex (randomBytes W) @ js ''.pdf'') B, Mkdir DataDir,
            WriteStore (JObj [(js ''certificates'', JArr (new_record E W B req # store_records F))])]"
proof -
  let ?r = "new_record E W B req"
  let ?doc = "JObj [(js ''certificates'', JArr (?r # store_records F))]"
  have u: "upload_handler E W F req =
      (stored (md5Buffer B) ?r,
       F\<lparr>DATA_FILE := Parses (stringify_parse ?doc),
         UPLOADS_DIR := (UPLOADS_DIR F)(hex (randomBytes W) @ js ''.pdf'' \<mapsto> B)\<rparr>,
       [Mkdir UploadsDir, WriteBlob (hex (randomBytes W) @ js ''.pdf'') B, Mkdir DataDir,
        WriteStore ?doc])"
    by (simp add: upload_handler_def upload_try_valid[OF assms(1-3)]
        upload_store_create[OF assms(4-6)] Let_def new_record_def)
  show "fst (upload_handler E W F req) = stored (md5Buffer B) ?r"
    by (simp add: u)
  show "snd (snd (upload_handler E W F req)) =
           [Mkdir UploadsDir, WriteBlob (hex (randomBytes W) @ js ''.pdf'') B, Mkdir DataDir,
            WriteStore ?doc]"
    by (simp add: u)
  have sp: "stringify_parse ?r = ?r"
    by (simp add: new_record_def stringify_certificate_record)
  have d: "readDb (fst (snd (upload_handler E W F req))) =
      \<lparr>certificates = JArr (?r # map stringify_parse (store_records F))\<rparr>"
    using sp by (simp add: u readDb_def readDb_try_def get_prop_def)
  then show "store_records (fst (snd (upload_handler E W F req))) =
           ?r # map stringify_parse (store_records F)"
    by (simp add: store_records_def)
  show "certificates_find (readDb (fst (snd (upload_handler E W F req)))) (md5Buffer B) =
           Inr (Some ?r)"
    unfolding d
    by (simp add: certificates_find_def new_record_def md5_matches_certificate_record)
qed

lemma upload_handler_one_per_digest:
  assumes "one_per_digest F"
  shows "one_per_digest (fst (snd (upload_handler E W F req)))"
proof -
  obtain x F' cs where t: "upload_try E W F req = (x, F', cs)"
    by (cases "upload_try E W F req") blast
  then have "fst (snd (upload_handler E W F req)) = F'"
    by (simp add: upload_handler_def split: sum.splits)
  moreover have "one_per_digest F'"
    using assms upload_try_DATA_FILE[OF t] by (rule one_per_digest_step)
  ultimately show ?thesis by simp
qed

lemma one_per_digest_fresh:
  "DATA_FILE F = Unreadable \<Longrightarrow> one_per_digest F"
  by (simp add: one_per_digest_def store_records_def readDb_empty(1) digests_def
      List.map_filter_simps)

section \<open>The paths of the verification handler\<close>

lemma verify_no_file:
  "no_file req \<Longrightarrow> verify_handler E F req = (failure 400 ''PDF file is required'', F, [])"
  by (auto simp: verify_handler_def verify_try_def no_file_def split: option.splits)

lemma verify_try_status:
  "verify_try E F req = (Inr r, F', cs) \<Longrightarrow> \<not> no_file req \<Longrightarrow>
   status r = 200 \<or> r = failure 400 ''Only PDF is allowed''"
  by (auto simp: verify_try_def no_file_def Let_def status_simps
      split: option.splits if_splits sum.splits)

lemma verify_file_present:
  assumes "\<not> no_file req"
  shows "fst (verify_handler E F req) \<noteq> failure 400 ''PDF file is required''"
proof (cases "verify_try E F req")
  case (fields x F' cs)
  show ?thesis
  proof (cases x)
    case (Inl e)
    with fields show ?thesis
      by (simp add: verify_handler_def failure_neq(5)[symmetric])
  next
    case (Inr r)
    with fields verify_try_status[of E F req r F' cs] assms
    have "status r = 200 \<or> r = failure 400 ''Only PDF is allowed''" by simp
    then have "r \<noteq> failure 400 ''PDF file is required''"
      by (auto simp: status_failure failure_eq_iff)
    with fields Inr show ?thesis by (simp add: verify_handler_def)
  qed
qed

lemma verify_try_snd: "snd (verify_try E F req) = (F, [])"
  by (auto simp: verify_try_def Let_def split: option.splits sum.splits)

lemma verify_handler_snd: "snd (verify_handler E F req) = (F, [])"
  using verify_try_snd[of E F req]
  by (cases "verify_try E F req") (auto simp: verify_handler_def split: sum.splits)

lemma verify_handler_pdf:
  assumes "has_pdf req B"
  shows "fst (verify_handler E F req) =
           (case certificates_find (readDb F) (md5Buffer B) of
              Inl e \<Rightarrow> server_error e
            | Inr None \<Rightarrow> no_match (md5Buffer B)
            | Inr (Some c) \<Rightarrow> match (md5Buffer B) c)"
  using assms certificates_find_Some[of F "md5Buffer B"]
  by (auto simp: verify_handler_def verify_try_def has_pdf_def Let_def
      split: option.splits sum.splits)

lemma verify_handler_cases:
  "(\<exists>msg. fst (verify_handler E F req) = failure 400 msg) \<or>
   (\<exists>e. fst (verify_handler E F req) = server_error e) \<or>
   (\<exists>m. fst (verify_handler E F req) = no_match m) \<or>
   (\<exists>m c. fst (verify_handler E F req) = match m c \<and> c \<in> set (store_records F) \<and>
      digest_of c = Some m)"
proof (cases "\<exists>B. has_pdf req B")
  case True
  then obtain B where "has_pdf req B" ..
  from verify_handler_pdf[OF this, of E F] certificates_find_Some[of F "md5Buffer B"]
  show ?thesis
    by (cases "certificates_find (readDb F) (md5Buffer B)") (auto split: option.splits)
next
  case False
  then have "\<exists>msg. fst (verify_handler E F req) = failure 400 msg"
    by (auto simp: verify_handler_def verify_try_def has_pdf_def split: option.splits)
  then show ?thesis by blast
qed

lemma keys_failure:
  "keys (body (failure s msg)) = [js ''ok'', js ''message'']" "certificate_keys (failure s msg) = []"
  by (simp_all add: keys_def certificate_keys_def failure_def res_json_def object_def js_eq_iff)

lemma keys_server_error:
  "keys (body (server_error e)) = [js ''ok'', js ''message'', js ''error'']"
  "certificate_keys (server_error e) = []"
  by (simp_all add: keys_def certificate_keys_def server_error_def res_json_def object_def js_eq_iff)

lemma keys_no_match:
  "keys (body (no_match m)) = [js ''ok'', js ''valid'', js ''md5'', js ''message'']"
  "certificate_keys (no_match m) = []"
  by (simp_all add: keys_def certificate_keys_def no_match_def res_json_def object_def js_eq_iff)

lemma keys_match:
  "keys (body (match m c)) = [js ''ok'', js ''valid'', js ''md5'', js ''certificate'']"
  "set (certificate_keys (match m c)) \<subseteq>
     {js ''studentName'', js ''degree'', js ''issueDate'', js ''createdAt''}"
  by (auto simp: keys_def certificate_keys_def match_def res_json_def object_def js_eq_iff
      split: option.splits)

lemma js_literals_distinct:
  "js ''id'' \<notin> {js ''ok'', js ''valid'', js ''md5'', js ''message'', js ''certificate'', js ''error''}"
  "js ''storedFile'' \<notin> {js ''ok'', js ''valid'', js ''md5'', js ''message'', js ''certificate'', js ''error''}"
  "js ''id'' \<notin> {js ''studentName'', js ''degree'', js ''issueDate'', js ''createdAt''}"
  "js ''storedFile'' \<notin> {js ''studentName'', js ''degree'', js ''issueDate'', js ''createdAt''}"
  by (simp_all add: js_eq_iff)

lemma verify_handler_keys:
  "set (keys (body (fst (verify_handler E F req)))) \<subseteq>
     {js ''ok'', js ''valid'', js ''md5'', js ''message'', js ''certificate'', js ''error''} \<and>
   set (certificate_keys (fst (verify_handler E F req))) \<subseteq>
     {js ''studentName'', js ''degree'', js ''issueDate'', js ''createdAt''}"
  using verify_handler_cases[of E F req]
proof (elim disjE exE conjE)
  fix m c
  assume "fst (verify_handler E F req) = match m c"
  then show ?thesis using keys_match(2)[of m c] by (simp add: keys_match(1))
qed (simp_all add: keys_failure keys_server_error keys_no_match)

lemma verify_handler_200:
  assumes "status (fst (verify_handler E F req)) = 200"
  shows "(\<exists>m. fst (verify_handler E F req) = no_match m) \<or>
         (\<exists>m c. fst (verify_handler E F req) = match m c \<and> c \<in> set (store_records F) \<and>
            digest_of c = Some m)"
proof -
  have "\<not> (\<exists>e. fst (verify_handler E F req) = server_error e)"
    using assms by (auto simp: status_server_error)
  moreover have "\<not> (\<exists>msg. fst (verify_handler E F req) = failure 400 msg)"
    using assms by (auto simp: status_failure)
  ultimately show ?thesis using verify_handler_cases[of E F req] by blast
qed

lemma certificate_field_match:
  "certificate_field (match m c) ''studentName'' = property c (js ''studentName'')"
  "certificate_field (match m c) ''degree'' = property c (js ''degree'')"
  "certificate_field (match m c) ''issueDate'' = property c (js ''issueDate'')"
  "certificate_field (match m c) ''createdAt'' = property c (js ''createdAt'')"
  by (auto simp: match_def res_json_def object_def certificate_field_def js_eq_iff
      split: option.splits)

lemma match_new_record:
  "property (body (match m (new_record E W B req))) (js ''valid'') = Some (JBool True)"
  "property (body (match m (new_record E W B req))) (js ''md5'') = Some (JStr m)"
  "certificate_field (match m (new_record E W B req)) ''studentName'' = Some (JStr (field (studentName req)))"
  "certificate_field (match m (new_record E W B req)) ''degree'' = Some (JStr (field (degree req)))"
  "certificate_field (match m (new_record E W B req)) ''issueDate'' = Some (JStr (field (issueDate req)))"
  "certificate_field (match m (new_record E W B req)) ''createdAt'' = Some (JStr (toISOString W))"
  by (simp_all add: match_def res_json_def object_def new_record_def certificate_record_def
      certificate_field_def js_eq_iff)

lemma verify_try_Inr_status:
  "verify_try E F req = (Inr r, F', cs) \<Longrightarrow> status r \<in> {200, 400}"
  by (auto simp: verify_try_def Let_def status_failure status_simps
      split: option.splits if_splits sum.splits)

lemma verify_handler_500:
  "status (fst (verify_handler E F req)) = 500 \<longleftrightarrow> (\<exists>e. fst (verify_try E F req) = Inl e)"
proof (cases "verify_try E F req")
  case (fields x F' cs)
  show ?thesis
  proof (cases x)
    case (Inl e)
    with fields show ?thesis by (simp add: verify_handler_def status_server_error)
  next
    case (Inr r)
    with fields verify_try_Inr_status[of E F req r F' cs] show ?thesis
      by (auto simp: verify_handler_def)
  qed
qed

text \<open>The invariant of the store, along any sequence of requests.\<close>

lemma run_one_per_digest: "one_per_digest F \<Longrightarrow> one_per_digest (run E F calls)"
proof (induction calls arbitrary: F)
  case Nil
  then show ?case by simp
next
  case (Cons c calls)
  show ?case
  proof (cases c)
    case (Upload W req)
    with Cons show ?thesis by (simp add: upload_handler_one_per_digest)
  next
    case (Verify req)
    with Cons verify_handler_snd[of E F req] show ?thesis by simp
  qed
qed

section \<open>The example inputs, evaluated\<close>

lemmas ex_defs = ex_env_def ex_io_def ex_io_later_def ex_io_disk_full_def ex_fs_def ex_pdf_def
  req_alice_def req_bob_def req_padded_def req_empty_pdf_def req_no_file_def req_bad_token_def
  ex_fs_number_def

lemmas handler_defs = upload_handler_def upload_try_def upload_store_def verify_handler_def
  verify_try_def field_def trim_def is_white_space_def Let_def readDb_def readDb_try_def
  certificates_find_def md5Buffer_def certificates_unshift_def writeDb_def get_prop_def
  md5_matches_def db_json_def

text \<open>The digest of the example, and the test suite of RFC 1321 for the empty message and \<open>abc\<close>.\<close>

lemma ex_md5: "md5Buffer ex_pdf = js ''bfa4b10a76324b166cfdad5e02a63730''"
  by code_simp

lemma md5_test_suite:
  "md5Buffer [] = js ''d41d8cd98f00b204e9800998ecf8427e''"
  "md5Buffer [0x61, 0x62, 0x63] = js ''900150983cd24fb0d6963f7d28e17f72''"
  by code_simp+

lemma ex_hex: "hex (randomBytes ex_io) = js ''01ab00ff102c7e99''"
  by (simp add: ex_io_def hex_def hex_digit_def js_def)

lemma ex_hex_later: "hex (randomBytes ex_io_later) @ js ''.pdf'' = js ''5e114207c3900df4.pdf''"
  by (simp add: ex_io_later_def hex_def hex_digit_def js_def)

lemma ex_valid:
  "authorized ex_env req_alice" "has_pdf req_alice ex_pdf" "fields_present req_alice"
  "authorized ex_env req_bob" "has_pdf req_bob ex_pdf" "fields_present req_bob"
  "blob_io_ok ex_io" "store_io_ok ex_io" "blob_io_ok ex_io_later" "store_io_ok ex_io_later"
  by (simp_all add: authorized_def has_pdf_def fields_present_def blob_io_ok_def store_io_ok_def
      ex_defs field_def trim_def is_white_space_def js_def)

lemma ex_padded:
  "authorized ex_env req_padded" "has_pdf req_padded ex_pdf" "fields_present req_padded"
  "field (studentName req_padded) = js ''Alice''" "field (degree req_padded) = js ''BSc''"
  "field (issueDate req_padded) = js ''2024-01-01''"
  "studentName req_padded = Some (js ''  Alice '')" "degree req_padded = Some (js ''BSc '')"
  "issueDate req_padded = Some (js '' 2024-01-01'')"
  by (simp_all add: authorized_def has_pdf_def fields_present_def ex_defs field_def trim_def
      is_white_space_def js_def)

lemma ex_fs_empty: "certificates_find (readDb ex_fs) m = Inr None" "store_records ex_fs = []"
  by (simp_all add: readDb_def readDb_try_def ex_fs_def certificates_find_def store_records_def)

lemma ex_record_stringify: "stringify_parse ex_record_bob = ex_record_bob"
  by (simp add: ex_record_bob_def certificate_record_def object_def)

lemma ex_fields_bob:
  "field (studentName req_bob) = js ''Bob''" "field (degree req_bob) = js ''MSc''"
  "field (issueDate req_bob) = js ''2023-06-30''"
  by (simp_all add: req_bob_def field_def trim_def is_white_space_def js_def)

lemma ex_upload_bob:
  "upload_handler ex_env ex_io ex_fs req_bob =
     (stored (js ''bfa4b10a76324b166cfdad5e02a63730'') ex_record_bob,
      \<lparr>DATA_FILE = Parses (JObj [(js ''certificates'', JArr [ex_record_bob])]),
       UPLOADS_DIR = [js ''01ab00ff102c7e99.pdf'' \<mapsto> ex_pdf]\<rparr>,
      [Mkdir UploadsDir, WriteBlob (js ''01ab00ff102c7e99.pdf'') ex_pdf, Mkdir DataDir,
       WriteStore (JObj [(js ''certificates'', JArr [ex_record_bob])])])"
proof -
  have t: "toISOString ex_io = js ''2024-01-01T00:00:00.000Z''" by (simp add: ex_io_def)
  have n: "js ''01ab00ff102c7e99'' @ js ''.pdf'' = js ''01ab00ff102c7e99.pdf''" by (simp add: js_def)
  have "upload_try ex_env ex_io ex_fs req_bob =
      upload_store ex_env ex_io ex_fs ex_pdf (js ''Bob'') (js ''MSc'') (js ''2023-06-30'')"
    using upload_try_valid[OF ex_valid(4-6), of ex_io ex_fs] by (simp only: ex_fields_bob)
  also have "\<dots> = (Inr (stored (js ''bfa4b10a76324b166cfdad5e02a63730'') ex_record_bob),
      ex_fs\<lparr>DATA_FILE := Parses (JObj [(js ''certificates'', JArr [ex_record_bob])]),
        UPLOADS_DIR := (UPLOADS_DIR ex_fs)(js ''01ab00ff102c7e99.pdf'' \<mapsto> ex_pdf)\<rparr>,
      [Mkdir UploadsDir, WriteBlob (js ''01ab00ff102c7e99.pdf'') ex_pdf, Mkdir DataDir,
       WriteStore (JObj [(js ''certificates'', JArr [ex_record_bob])])])"
    using ex_record_stringify
    by (simp add: upload_store_create[OF ex_valid(7,8) ex_fs_empty(1)] Let_def ex_md5 ex_hex
        ex_fs_empty(2) t n ex_record_bob_def[symmetric])
  finally show ?thesis by (simp add: upload_handler_def ex_fs_def)
qed

lemma ex_fs_bob_eq:
  "ex_fs_bob = \<lparr>DATA_FILE = Parses (JObj [(js ''certificates'', JArr [ex_record_bob])]),
                UPLOADS_DIR = [js ''01ab00ff102c7e99.pdf'' \<mapsto> ex_pdf]\<rparr>"
  by (simp add: ex_fs_bob_def ex_upload_bob)

lemma ex_fs_bob_store:
  "readDb ex_fs_bob = \<lparr>certificates = JArr [ex_record_bob]\<rparr>"
  "store_records ex_fs_bob = [ex_record_bob]"
  "certificates_find (readDb ex_fs_bob) (js ''bfa4b10a76324b166cfdad5e02a63730'') = Inr (Some ex_record_bob)"
  by (simp_all add: ex_fs_bob_eq readDb_def readDb_try_def get_prop_def store_records_def
      certificates_find_def md5_matches_def ex_record_bob_def certificate_record_def object_def js_def)

lemma ex_upload_alice_dup:
  "upload_handler ex_env ex_io_later ex_fs_bob req_alice =
     (already_exists (js ''bfa4b10a76324b166cfdad5e02a63730'') ex_record_bob,
      ex_fs_bob\<lparr>UPLOADS_DIR := (UPLOADS_DIR ex_fs_bob)(js ''5e114207c3900df4.pdf'' \<mapsto> ex_pdf)\<rparr>,
      [Mkdir UploadsDir, WriteBlob (js ''5e114207c3900df4.pdf'') ex_pdf])"
proof -
  have f: "certificates_find (readDb ex_fs_bob) (md5Buffer ex_pdf) = Inr (Some ex_record_bob)"
    by (simp only: ex_md5 ex_fs_bob_store(3))
  show ?thesis
    by (simp add: upload_handler_def upload_try_valid[OF ex_valid(1-3)]
        upload_store_duplicate[OF ex_valid(9) f] ex_md5 ex_hex_later)
qed

lemma ex_upload_alice_disk_full:
  "fst (upload_handler ex_env ex_io_disk_full ex_fs_bob req_alice) =
     server_error (Rejected (js ''Error: ENOSPC: no space left on device, write''))"
  by (simp add: upload_handler_def upload_try_valid[OF ex_valid(1-3)] upload_store_def Let_def
      ex_io_disk_full_def ex_io_def)

lemma ex_verify_after_dup:
  "fst (verify_handler ex_env (fst (snd (upload_handler ex_env ex_io_later ex_fs_bob req_alice))) req_alice) =
     match (js ''bfa4b10a76324b166cfdad5e02a63730'') ex_record_bob"
  unfolding ex_upload_alice_dup
  by (simp add: verify_handler_pdf[OF ex_valid(2)] readDb_UPLOADS ex_md5 ex_fs_bob_store(3))

lemma match_bob:
  "property (body (match m ex_record_bob)) (js ''valid'') = Some (JBool True)"
  "certificate_field (match m ex_record_bob) ''studentName'' = Some (JStr (js ''Bob''))"
  by (simp_all add: match_def res_json_def object_def ex_record_bob_def certificate_record_def
      certificate_field_def js_eq_iff)

section \<open>The properties\<close>

subsection \<open>C1: round trip\<close>

text \<open>
  C1, as the code has it. Let a registration pass the four checks (the trimmed token is the
  secret, the upload has the bytes \<open>B\<close> and the type \<open>application/pdf\<close>, the three text
  fields are non-empty once trimmed), let its filesystem calls complete, and let the lookup
  of the digest of \<open>B\<close> find no record. Then verifying an upload with the same bytes, on the
  disk the registration leaves, answers \<open>valid: true\<close> with the record just created, and
  its \<open>studentName\<close>, \<open>degree\<close> and \<open>issueDate\<close> are the trimmed fields of the registration.
\<close>

theorem C1_roundtrip_fresh:
  assumes "authorized E req" "has_pdf req B" "fields_present req" "blob_io_ok W" "store_io_ok W"
    "certificates_find (readDb F) (md5Buffer B) = Inr None" "has_pdf req' B"
  shows "fst (verify_handler E (fst (snd (upload_handler E W F req))) req') =
           match (md5Buffer B) (new_record E W B req) \<and>
         property (body (fst (verify_handler E (fst (snd (upload_handler E W F req))) req')))
           (js ''valid'') = Some (JBool True) \<and>
         certificate_field (fst (verify_handler E (fst (snd (upload_handler E W F req))) req'))
           ''studentName'' = Some (JStr (field (studentName req))) \<and>
         certificate_field (fst (verify_handler E (fst (snd (upload_handler E W F req))) req'))
           ''degree'' = Some (JStr (field (degree req))) \<and>
         certificate_field (fst (verify_handler E (fst (snd (upload_handler E W F req))) req'))
           ''issueDate'' = Some (JStr (field (issueDate req)))"
proof -
  have "fst (verify_handler E (fst (snd (upload_handler E W F req))) req') =
           match (md5Buffer B) (new_record E W B req)"
    by (simp add: verify_handler_pdf[OF assms(7)] upload_handler_create(3)[OF assms(1-6)])
  then show ?thesis by (simp add: match_new_record)
qed

text \<open>An instance, with padded fields and a padded token, on the empty disk.\<close>

theorem C1_roundtrip_fresh_witness:
  "authorized ex_env req_padded \<and> has_pdf req_padded ex_pdf \<and> fields_present req_padded \<and>
   blob_io_ok ex_io \<and> store_io_ok ex_io \<and>
   certificates_find (readDb ex_fs) (md5Buffer ex_pdf) = Inr None \<and>
   has_pdf req_alice ex_pdf \<and>
   property (body (fst (verify_handler ex_env (fst (snd (upload_handler ex_env ex_io ex_fs req_padded))) req_alice)))
     (js ''valid'') = Some (JBool True) \<and>
   certificate_field (fst (verify_handler ex_env (fst (snd (upload_handler ex_env ex_io ex_fs req_padded))) req_alice))
     ''studentName'' = Some (JStr (js ''Alice''))"
proof -
  note c1 = C1_roundtrip_fresh [OF ex_padded(1) ex_padded(2) ex_padded(3) ex_valid(7) ex_valid(8)
      ex_fs_empty(1) ex_valid(2)]
  from c1 have
    "certificate_field (fst (verify_handler ex_env (fst (snd (upload_handler ex_env ex_io ex_fs req_padded))) req_alice))
       ''studentName'' = Some (JStr (field (studentName req_padded)))"
    by blast
  then have n: "certificate_field (fst (verify_handler ex_env (fst (snd (upload_handler ex_env ex_io ex_fs req_padded))) req_alice))
       ''studentName'' = Some (JStr (js ''Alice''))"
    by (simp only: ex_padded(4))
  from c1 have v: "property (body (fst (verify_handler ex_env (fst (snd (upload_handler ex_env ex_io ex_fs req_padded))) req_alice)))
     (js ''valid'') = Some (JBool True)"
    by blast
  from ex_padded(1-3) ex_valid(7,8) ex_fs_empty(1)[of "md5Buffer ex_pdf"] ex_valid(2) n v
  show ?thesis by blast
qed

text \<open>
  Without the condition on the store the round trip fails. Bob's document is in the store;
  the same bytes are registered with Alice's name, which is answered 200 as a duplicate;
  verifying the bytes then answers \<open>valid: true\<close> with Bob's name, not with the name
  supplied at the registration.
\<close>

theorem C1_counterexample:
  "authorized ex_env req_alice \<and> has_pdf req_alice ex_pdf \<and> ex_pdf \<noteq> [] \<and>
   fields_present req_alice \<and> studentName req_alice = Some (js ''Alice'') \<and>
   status (fst (upload_handler ex_env ex_io_later ex_fs_bob req_alice)) = 200 \<and>
   property (body (fst (verify_handler ex_env
       (fst (snd (upload_handler ex_env ex_io_later ex_fs_bob req_alice))) req_alice)))
     (js ''valid'') = Some (JBool True) \<and>
   certificate_field (fst (verify_handler ex_env
       (fst (snd (upload_handler ex_env ex_io_later ex_fs_bob req_alice))) req_alice))
     ''studentName'' = Some (JStr (js ''Bob'')) \<and>
   js ''Bob'' \<noteq> js ''Alice''"
proof -
  have "status (fst (upload_handler ex_env ex_io_later ex_fs_bob req_alice)) = 200"
    by (simp add: ex_upload_alice_dup status_simps)
  moreover have "ex_pdf \<noteq> []" "studentName req_alice = Some (js ''Alice'')" "js ''Bob'' \<noteq> js ''Alice''"
    by (simp_all add: ex_pdf_def req_alice_def js_eq_iff)
  ultimately show ?thesis
    using ex_valid(1-3) by (simp add: ex_verify_after_dup match_bob)
qed

subsection \<open>C2: a second registration of the same bytes\<close>

text \<open>
  C2, as the code has it. Let a registration pass the checks with bytes \<open>B\<close>, and let the
  lookup of the digest of \<open>B\<close> find the record \<open>c\<close> of the store. Then, whatever becomes of
  its filesystem calls, the snapshot file and the records of the store are the same after
  the request as before, and no store write is issued. The upload is written to the archive
  before the lookup: when that write completes, the answer has the status 200 and the
  properties \<open>ok: true\<close>, the message of a duplicate, \<open>md5\<close> the digest of \<open>B\<close>, and
  \<open>certificate\<close> the record \<open>c\<close> as it is stored, and no other property; when it is
  rejected, the answer is a 500 that carries no record.
\<close>

theorem C2_duplicate_registration:
  assumes "authorized E req" "has_pdf req B" "fields_present req"
    "certificates_find (readDb F) (md5Buffer B) = Inr (Some c)"
  shows "c \<in> set (store_records F) \<and>
         DATA_FILE (fst (snd (upload_handler E W F req))) = DATA_FILE F \<and>
         store_records (fst (snd (upload_handler E W F req))) = store_records F \<and>
         store_writes (snd (snd (upload_handler E W F req))) = 0 \<and>
         (blob_io_ok W \<longrightarrow>
            fst (upload_handler E W F req) = already_exists (md5Buffer B) c \<and>
            status (fst (upload_handler E W F req)) = 200 \<and>
            keys (body (fst (upload_handler E W F req))) =
              [js ''ok'', js ''message'', js ''md5'', js ''certificate''] \<and>
            property (body (fst (upload_handler E W F req))) (js ''ok'') = Some (JBool True) \<and>
            property (body (fst (upload_handler E W F req))) (js ''message'') =
              Some (JStr (js ''Certificate already exists with the same MD5'')) \<and>
            property (body (fst (upload_handler E W F req))) (js ''md5'') =
              Some (JStr (md5Buffer B)) \<and>
            property (body (fst (upload_handler E W F req))) (js ''certificate'') = Some c) \<and>
         (\<not> blob_io_ok W \<longrightarrow>
            status (fst (upload_handler E W F req)) = 500 \<and>
            property (body (fst (upload_handler E W F req))) (js ''certificate'') = None)"
proof (cases "blob_io_ok W")
  case True
  have r: "fst (upload_handler E W F req) = already_exists (md5Buffer B) c"
    by (simp add: upload_handler_def upload_try_valid[OF assms(1-3)]
        upload_store_duplicate[OF True assms(4)])
  have rest: "DATA_FILE (fst (snd (upload_handler E W F req))) = DATA_FILE F \<and>
         store_records (fst (snd (upload_handler E W F req))) = store_records F \<and>
         store_writes (snd (snd (upload_handler E W F req))) = 0"
    by (simp add: upload_handler_def upload_try_valid[OF assms(1-3)]
        upload_store_duplicate[OF True assms(4)] store_records_def readDb_UPLOADS store_writes_def)
  from True r rest certificates_find_Some[OF assms(4)] show ?thesis
    by (simp add: body_already_exists status_simps message_simps)
next
  case False
  from upload_store_blob_fails[OF False, of E F B "field (studentName req)" "field (degree req)"
      "field (issueDate req)"]
  obtain e F' cs where
    us: "upload_store E W F B (field (studentName req)) (field (degree req)) (field (issueDate req)) =
       (Inl (Rejected e), F', cs)"
    and d: "DATA_FILE F' = DATA_FILE F" and w: "store_writes cs = 0"
    by blast
  from us have u: "upload_try E W F req = (Inl (Rejected e), F', cs)"
    by (simp only: upload_try_valid[OF assms(1-3)])
  have "store_records F' = store_records F"
    using readDb_cong[OF d] by (simp add: store_records_def)
  moreover have "upload_handler E W F req = (server_error (Rejected e), F', cs)"
    by (simp add: upload_handler_def u)
  ultimately show ?thesis
    using d w False certificates_find_Some[OF assms(4)]
    by (simp add: status_server_error body_server_error_certificate)
qed

text \<open>
  An instance: Bob's document is in the store and the same bytes come with Alice's name,
  once with a working disk and once with a full one.
\<close>

theorem C2_duplicate_registration_witness:
  "authorized ex_env req_alice \<and> has_pdf req_alice ex_pdf \<and> fields_present req_alice \<and>
   certificates_find (readDb ex_fs_bob) (md5Buffer ex_pdf) = Inr (Some ex_record_bob) \<and>
   blob_io_ok ex_io_later \<and>
   fst (upload_handler ex_env ex_io_later ex_fs_bob req_alice) =
     already_exists (md5Buffer ex_pdf) ex_record_bob \<and>
   property (body (fst (upload_handler ex_env ex_io_later ex_fs_bob req_alice))) (js ''md5'') =
     Some (JStr (js ''bfa4b10a76324b166cfdad5e02a63730'')) \<and>
   property (body (fst (upload_handler ex_env ex_io_later ex_fs_bob req_alice))) (js ''certificate'') =
     Some ex_record_bob \<and>
   store_records (fst (snd (upload_handler ex_env ex_io_later ex_fs_bob req_alice))) = [ex_record_bob] \<and>
   \<not> blob_io_ok ex_io_disk_full \<and>
   status (fst (upload_handler ex_env ex_io_disk_full ex_fs_bob req_alice)) = 500 \<and>
   store_records (fst (snd (upload_handler ex_env ex_io_disk_full ex_fs_bob req_alice))) = [ex_record_bob]"
proof -
  have f: "certificates_find (readDb ex_fs_bob) (md5Buffer ex_pdf) = Inr (Some ex_record_bob)"
    by (simp only: ex_md5 ex_fs_bob_store(3))
  have n: "\<not> blob_io_ok ex_io_disk_full"
    by (simp add: blob_io_ok_def ex_io_disk_full_def ex_io_def)
  note a = C2_duplicate_registration [OF ex_valid(1) ex_valid(2) ex_valid(3) f, of ex_io_later]
  note b = C2_duplicate_registration [OF ex_valid(1) ex_valid(2) ex_valid(3) f, of ex_io_disk_full]
  note a4 = a [THEN conjunct2, THEN conjunct2, THEN conjunct2, THEN conjunct2]
  note b4 = b [THEN conjunct2, THEN conjunct2, THEN conjunct2, THEN conjunct2]
  note dup = a4 [THEN conjunct1, rule_format, OF ex_valid(9)]
  note err = b4 [THEN conjunct2, rule_format, OF n]
  from dup have 1: "fst (upload_handler ex_env ex_io_later ex_fs_bob req_alice) =
     already_exists (md5Buffer ex_pdf) ex_record_bob" by (rule conjunct1)
  from dup have "property (body (fst (upload_handler ex_env ex_io_later ex_fs_bob req_alice))) (js ''md5'') =
     Some (JStr (md5Buffer ex_pdf))" by (elim conjE)
  then have 5: "property (body (fst (upload_handler ex_env ex_io_later ex_fs_bob req_alice))) (js ''md5'') =
     Some (JStr (js ''bfa4b10a76324b166cfdad5e02a63730''))" by (simp only: ex_md5)
  from dup have 6: "property (body (fst (upload_handler ex_env ex_io_later ex_fs_bob req_alice)))
      (js ''certificate'') = Some ex_record_bob" by (elim conjE)
  from a have "store_records (fst (snd (upload_handler ex_env ex_io_later ex_fs_bob req_alice))) =
      store_records ex_fs_bob"
    by (rule conjunct2 [THEN conjunct2, THEN conjunct1])
  then have 2: "store_records (fst (snd (upload_handler ex_env ex_io_later ex_fs_bob req_alice))) = [ex_record_bob]"
    by (simp only: ex_fs_bob_store(2))
  from err have 3: "status (fst (upload_handler ex_env ex_io_disk_full ex_fs_bob req_alice)) = 500"
    by (rule conjunct1)
  from b have "store_records (fst (snd (upload_handler ex_env ex_io_disk_full ex_fs_bob req_alice))) =
      store_records ex_fs_bob"
    by (rule conjunct2 [THEN conjunct2, THEN conjunct1])
  then have 4: "store_records (fst (snd (upload_handler ex_env ex_io_disk_full ex_fs_bob req_alice))) = [ex_record_bob]"
    by (simp only: ex_fs_bob_store(2))
  show ?thesis
    by (intro conjI) (rule ex_valid(1) ex_valid(2) ex_valid(3) f ex_valid(9) 1 5 6 2 n 3 4)+
qed

text \<open>
  That every second registration of registered bytes is answered with the stored record
  fails: Bob's document is in the store, the same bytes come in a valid request while the
  disk is full, the write to the archive is rejected before the lookup, and the answer is
  a 500 without a record.
\<close>

theorem C2_counterexample:
  "authorized ex_env req_alice \<and> has_pdf req_alice ex_pdf \<and> fields_present req_alice \<and>
   certificates_find (readDb ex_fs_bob) (md5Buffer ex_pdf) = Inr (Some ex_record_bob) \<and>
   status (fst (upload_handler ex_env ex_io_disk_full ex_fs_bob req_alice)) = 500 \<and>
   property (body (fst (upload_handler ex_env ex_io_disk_full ex_fs_bob req_alice)))
     (js ''message'') = Some (JStr (js ''Server error'')) \<and>
   property (body (fst (upload_handler ex_env ex_io_disk_full ex_fs_bob req_alice)))
     (js ''certificate'') = None"
proof -
  have f: "certificates_find (readDb ex_fs_bob) (md5Buffer ex_pdf) = Inr (Some ex_record_bob)"
    by (simp only: ex_md5 ex_fs_bob_store(3))
  show ?thesis
    by (intro conjI)
      (simp_all add: ex_valid(1) ex_valid(2) ex_valid(3) f ex_upload_alice_disk_full
        status_server_error body_server_error body_server_error_certificate)
qed

subsection \<open>C3: the writes of a registration\<close>

text \<open>
  C3, as the code has it. A registration answered as a duplicate has issued exactly one
  write to the archive and no write to the store; a registration answered with a new
  record has issued exactly one write to the archive and exactly one write to the store,
  which rewrites the whole snapshot with the new record in front. On both paths the write
  to the archive puts the uploaded bytes under the name made of the hexadecimal digits of
  the request's random bytes and \<open>.pdf\<close>, in place of whatever the archive held under that
  name: the name is not checked against the archive.
\<close>

theorem C3_writes_per_path:
  "(fst (upload_handler E W F req) = already_exists m c \<longrightarrow>
      blob_writes (snd (snd (upload_handler E W F req))) = 1 \<and>
      store_writes (snd (snd (upload_handler E W F req))) = 0 \<and>
      (\<exists>B. has_pdf req B \<and>
         snd (snd (upload_handler E W F req)) =
           [Mkdir UploadsDir, WriteBlob (hex (randomBytes W) @ js ''.pdf'') B] \<and>
         fst (snd (upload_handler E W F req)) =
           F\<lparr>UPLOADS_DIR := (UPLOADS_DIR F)(hex (randomBytes W) @ js ''.pdf'' \<mapsto> B)\<rparr>)) \<and>
   (fst (upload_handler E W F req) = stored m c \<longrightarrow>
      blob_writes (snd (snd (upload_handler E W F req))) = 1 \<and>
      store_writes (snd (snd (upload_handler E W F req))) = 1 \<and>
      (\<exists>B. has_pdf req B \<and>
         snd (snd (upload_handler E W F req)) =
           [Mkdir UploadsDir, WriteBlob (hex (randomBytes W) @ js ''.pdf'') B, Mkdir DataDir,
            WriteStore (JObj [(js ''certificates'', JArr (c # store_records F))])] \<and>
         UPLOADS_DIR (fst (snd (upload_handler E W F req))) =
           (UPLOADS_DIR F)(hex (randomBytes W) @ js ''.pdf'' \<mapsto> B)))"
proof (cases "upload_try E W F req")
  case (fields x F' cs)
  show ?thesis
  proof (cases x)
    case (Inl e)
    with fields show ?thesis by (simp add: upload_handler_def server_error_neq)
  next
    case (Inr r)
    with fields have h: "upload_handler E W F req = (r, F', cs)"
      by (simp add: upload_handler_def)
    have t: "upload_try E W F req = (Inr r, F', cs)" using fields Inr by simp
    have dup: "blob_writes cs = 1 \<and> store_writes cs = 0 \<and>
        (\<exists>B. has_pdf req B \<and>
           cs = [Mkdir UploadsDir, WriteBlob (hex (randomBytes W) @ js ''.pdf'') B] \<and>
           F' = F\<lparr>UPLOADS_DIR := (UPLOADS_DIR F)(hex (randomBytes W) @ js ''.pdf'' \<mapsto> B)\<rparr>)"
      if r: "r = already_exists m c"
    proof -
      from upload_try_paths[OF t, of m c] r obtain B where B: "has_pdf req B"
        and u: "upload_store E W F B (field (studentName req)) (field (degree req))
                  (field (issueDate req)) = (Inr r, F', cs)"
        by blast
      from upload_store_paths[OF u, of m c] r
      have cs: "cs = [Mkdir UploadsDir, WriteBlob (hex (randomBytes W) @ js ''.pdf'') B]"
        and F': "F' = F\<lparr>UPLOADS_DIR := (UPLOADS_DIR F)(hex (randomBytes W) @ js ''.pdf'' \<mapsto> B)\<rparr>"
        by simp_all
      from cs have cnt: "blob_writes cs = 1" "store_writes cs = 0"
        by (simp_all add: blob_writes_def store_writes_def)
      from B cs F' have ex: "\<exists>B. has_pdf req B \<and>
           cs = [Mkdir UploadsDir, WriteBlob (hex (randomBytes W) @ js ''.pdf'') B] \<and>
           F' = F\<lparr>UPLOADS_DIR := (UPLOADS_DIR F)(hex (randomBytes W) @ js ''.pdf'' \<mapsto> B)\<rparr>"
        by (intro exI[of _ B] conjI)
      show ?thesis by (intro conjI) (rule cnt ex)+
    qed
    have new: "blob_writes cs = 1 \<and> store_writes cs = 1 \<and>
        (\<exists>B. has_pdf req B \<and>
           cs = [Mkdir UploadsDir, WriteBlob (hex (randomBytes W) @ js ''.pdf'') B, Mkdir DataDir,
                 WriteStore (JObj [(js ''certificates'', JArr (c # store_records F))])] \<and>
           UPLOADS_DIR F' = (UPLOADS_DIR F)(hex (randomBytes W) @ js ''.pdf'' \<mapsto> B))"
      if r: "r = stored m c"
    proof -
      from upload_try_paths[OF t, of m c] r obtain B where B: "has_pdf req B"
        and u: "upload_store E W F B (field (studentName req)) (field (degree req))
                  (field (issueDate req)) = (Inr r, F', cs)"
        by blast
      from upload_store_paths[OF u, of m c] r
      have cs: "cs = [Mkdir UploadsDir, WriteBlob (hex (randomBytes W) @ js ''.pdf'') B, Mkdir DataDir,
                 WriteStore (JObj [(js ''certificates'', JArr (c # store_records F))])]"
        and F': "UPLOADS_DIR F' = (UPLOADS_DIR F)(hex (randomBytes W) @ js ''.pdf'' \<mapsto> B)"
        by simp_all
      from cs have cnt: "blob_writes cs = 1" "store_writes cs = 1"
        by (simp_all add: blob_writes_def store_writes_def)
      from B cs F' have ex: "\<exists>B. has_pdf req B \<and>
           cs = [Mkdir UploadsDir, WriteBlob (hex (randomBytes W) @ js ''.pdf'') B, Mkdir DataDir,
                 WriteStore (JObj [(js ''certificates'', JArr (c # store_records F))])] \<and>
           UPLOADS_DIR F' = (UPLOADS_DIR F)(hex (randomBytes W) @ js ''.pdf'' \<mapsto> B)"
        by (intro exI[of _ B] conjI)
      show ?thesis by (intro conjI) (rule cnt ex)+
    qed
    from dup new show ?thesis unfolding h by simp
  qed
qed

text \<open>An instance of each path.\<close>

theorem C3_writes_per_path_witness:
  "fst (upload_handler ex_env ex_io_later ex_fs_bob req_alice) = already_exists (js ''bfa4b10a76324b166cfdad5e02a63730'') ex_record_bob \<and>
   blob_writes (snd (snd (upload_handler ex_env ex_io_later ex_fs_bob req_alice))) = 1 \<and>
   store_writes (snd (snd (upload_handler ex_env ex_io_later ex_fs_bob req_alice))) = 0 \<and>
   fst (upload_handler ex_env ex_io ex_fs req_bob) = stored (js ''bfa4b10a76324b166cfdad5e02a63730'') ex_record_bob \<and>
   blob_writes (snd (snd (upload_handler ex_env ex_io ex_fs req_bob))) = 1 \<and>
   store_writes (snd (snd (upload_handler ex_env ex_io ex_fs req_bob))) = 1"
proof -
  have a: "fst (upload_handler ex_env ex_io_later ex_fs_bob req_alice) =
      already_exists (js ''bfa4b10a76324b166cfdad5e02a63730'') ex_record_bob"
    by (simp add: ex_upload_alice_dup)
  have b: "fst (upload_handler ex_env ex_io ex_fs req_bob) =
      stored (js ''bfa4b10a76324b166cfdad5e02a63730'') ex_record_bob"
    by (simp add: ex_upload_bob)
  note dup = C3_writes_per_path [of ex_env ex_io_later ex_fs_bob req_alice
      "js ''bfa4b10a76324b166cfdad5e02a63730''" ex_record_bob, THEN conjunct1, rule_format, OF a]
  note new = C3_writes_per_path [of ex_env ex_io ex_fs req_bob
      "js ''bfa4b10a76324b166cfdad5e02a63730''" ex_record_bob, THEN conjunct2, rule_format, OF b]
  show ?thesis
    by (intro conjI)
      (rule a b dup [THEN conjunct1] dup [THEN conjunct2, THEN conjunct1]
        new [THEN conjunct1] new [THEN conjunct2, THEN conjunct1])+
qed

text \<open>
  That no write occurs on the duplicate path fails: the duplicate registration of Bob's
  bytes writes them to the archive once more, under the name made from the random bytes
  of the request.
\<close>

theorem C3_counterexample:
  "fst (upload_handler ex_env ex_io_later ex_fs_bob req_alice) = already_exists (js ''bfa4b10a76324b166cfdad5e02a63730'') ex_record_bob \<and>
   snd (snd (upload_handler ex_env ex_io_later ex_fs_bob req_alice)) =
     [Mkdir UploadsDir, WriteBlob (js ''5e114207c3900df4.pdf'') ex_pdf] \<and>
   blob_writes (snd (snd (upload_handler ex_env ex_io_later ex_fs_bob req_alice))) \<noteq> 0 \<and>
   UPLOADS_DIR ex_fs_bob (js ''5e114207c3900df4.pdf'') = None \<and>
   UPLOADS_DIR (fst (snd (upload_handler ex_env ex_io_later ex_fs_bob req_alice)))
     (js ''5e114207c3900df4.pdf'') = Some ex_pdf"
  unfolding ex_upload_alice_dup
  by (simp add: blob_writes_def ex_fs_bob_eq js_def)

subsection \<open>C4: internal errors\<close>

text \<open>
  C4, as the code has it. Either handler answers 500 exactly when its \<open>try\<close> block throws;
  and when it throws \<open>e\<close>, the answer has the status 500 and the generic message
  \<open>Server error\<close>, and its \<open>error\<close> property is \<open>String(e)\<close>, the text of the exception.
\<close>

theorem C4_error_text_in_response:
  "(status (fst (upload_handler E W F req)) = 500 \<longleftrightarrow> (\<exists>e. fst (upload_try E W F req) = Inl e)) \<and>
   (status (fst (verify_handler E F req)) = 500 \<longleftrightarrow> (\<exists>e. fst (verify_try E F req) = Inl e)) \<and>
   (fst (upload_try E W F req) = Inl e \<longrightarrow>
      status (fst (upload_handler E W F req)) = 500 \<and>
      property (body (fst (upload_handler E W F req))) (js ''message'') = Some (JStr (js ''Server error'')) \<and>
      property (body (fst (upload_handler E W F req))) (js ''error'') = Some (JStr (to_String e))) \<and>
   (fst (verify_try E F req) = Inl e \<longrightarrow>
      status (fst (verify_handler E F req)) = 500 \<and>
      property (body (fst (verify_handler E F req))) (js ''message'') = Some (JStr (js ''Server error'')) \<and>
      property (body (fst (verify_handler E F req))) (js ''error'') = Some (JStr (to_String e)))"
proof -
  have "fst (upload_try E W F req) = Inl e \<longrightarrow>
      status (fst (upload_handler E W F req)) = 500 \<and>
      property (body (fst (upload_handler E W F req))) (js ''message'') = Some (JStr (js ''Server error'')) \<and>
      property (body (fst (upload_handler E W F req))) (js ''error'') = Some (JStr (to_String e))"
    by (auto simp: upload_handler_def status_server_error body_server_error split: prod.splits)
  moreover have "fst (verify_try E F req) = Inl e \<longrightarrow>
      status (fst (verify_handler E F req)) = 500 \<and>
      property (body (fst (verify_handler E F req))) (js ''message'') = Some (JStr (js ''Server error'')) \<and>
      property (body (fst (verify_handler E F req))) (js ''error'') = Some (JStr (to_String e))"
    by (auto simp: verify_handler_def status_server_error body_server_error split: prod.splits)
  ultimately show ?thesis
    using upload_handler_500[of E W F req] verify_handler_500[of E F req] by blast
qed

text \<open>
  Instances: a registration while the disk is full, and a verification on a snapshot whose
  \<open>certificates\<close> is a number.
\<close>

theorem C4_error_text_in_response_witness:
  "fst (upload_try ex_env ex_io_disk_full ex_fs req_alice) =
     Inl (Rejected (js ''Error: ENOSPC: no space left on device, write'')) \<and>
   property (body (fst (upload_handler ex_env ex_io_disk_full ex_fs req_alice))) (js ''error'') =
     Some (JStr (js ''Error: ENOSPC: no space left on device, write'')) \<and>
   fst (verify_try ex_env ex_fs_number req_alice) =
     Inl (TypeError (js ''db.certificates.find is not a function'')) \<and>
   property (body (fst (verify_handler ex_env ex_fs_number req_alice))) (js ''error'') =
     Some (JStr (js ''TypeError: db.certificates.find is not a function''))"
proof -
  have a: "fst (upload_try ex_env ex_io_disk_full ex_fs req_alice) =
     Inl (Rejected (js ''Error: ENOSPC: no space left on device, write''))"
    by (simp add: ex_defs handler_defs js_def)
  have b: "fst (verify_try ex_env ex_fs_number req_alice) =
     Inl (TypeError (js ''db.certificates.find is not a function''))"
    by (simp add: ex_defs handler_defs js_def)
  have c: "to_String (TypeError (js ''db.certificates.find is not a function'')) =
     js ''TypeError: db.certificates.find is not a function''"
    by (simp add: js_def)
  from a C4_error_text_in_response [of ex_env ex_io_disk_full ex_fs req_alice
        "Rejected (js ''Error: ENOSPC: no space left on device, write'')"]
  have 1: "property (body (fst (upload_handler ex_env ex_io_disk_full ex_fs req_alice))) (js ''error'') =
     Some (JStr (to_String (Rejected (js ''Error: ENOSPC: no space left on device, write''))))"
    by blast
  from b C4_error_text_in_response [of ex_env ex_io ex_fs_number req_alice
        "TypeError (js ''db.certificates.find is not a function'')"]
  have 2: "property (body (fst (verify_handler ex_env ex_fs_number req_alice))) (js ''error'') =
     Some (JStr (to_String (TypeError (js ''db.certificates.find is not a function''))))"
    by blast
  from 2 have 3: "property (body (fst (verify_handler ex_env ex_fs_number req_alice))) (js ''error'') =
     Some (JStr (js ''TypeError: db.certificates.find is not a function''))"
    by (simp only: c)
  from 1 have 4: "property (body (fst (upload_handler ex_env ex_io_disk_full ex_fs req_alice))) (js ''error'') =
     Some (JStr (js ''Error: ENOSPC: no space left on device, write''))"
    by (simp only: to_String.simps)
  from a b 3 4 show ?thesis by blast
qed

text \<open>
  That no internal detail is in the answer fails: the verification on that snapshot answers
  with the text of the TypeError.
\<close>

theorem C4_counterexample:
  "status (fst (verify_handler ex_env ex_fs_number req_alice)) = 500 \<and>
   property (body (fst (verify_handler ex_env ex_fs_number req_alice))) (js ''error'') =
     Some (JStr (js ''TypeError: db.certificates.find is not a function''))"
  by (simp add: ex_defs handler_defs server_error_def res_json_def object_def js_def)

subsection \<open>C5: the file check\<close>

text \<open>
  C5, as the code has it. A verification request without a file (or whose file has no
  buffer) is answered 400 \<open>PDF file is required\<close>, and so is such a registration request
  whose token is accepted, neither touching the disk; a request that has a file with a
  buffer, of any length, is never answered so.
\<close>

theorem C5_file_required:
  "(no_file req \<longrightarrow>
      verify_handler E F req = (failure 400 ''PDF file is required'', F, []) \<and>
      (authorized E req \<longrightarrow>
         upload_handler E W F req = (failure 400 ''PDF file is required'', F, []))) \<and>
   (\<not> no_file req \<longrightarrow>
      fst (verify_handler E F req) \<noteq> failure 400 ''PDF file is required'' \<and>
      fst (upload_handler E W F req) \<noteq> failure 400 ''PDF file is required'')"
  using verify_no_file upload_no_file verify_file_present upload_file_present by blast

text \<open>Instances: a request without a file, and one with a file.\<close>

theorem C5_file_required_witness:
  "no_file req_no_file \<and> authorized ex_env req_no_file \<and>
   verify_handler ex_env ex_fs req_no_file = (failure 400 ''PDF file is required'', ex_fs, []) \<and>
   upload_handler ex_env ex_io ex_fs req_no_file = (failure 400 ''PDF file is required'', ex_fs, []) \<and>
   \<not> no_file req_alice \<and>
   fst (verify_handler ex_env ex_fs req_alice) \<noteq> failure 400 ''PDF file is required'' \<and>
   fst (upload_handler ex_env ex_io ex_fs req_alice) \<noteq> failure 400 ''PDF file is required''"
proof -
  have a: "no_file req_no_file"
    by (simp add: no_file_def req_no_file_def)
  have b: "authorized ex_env req_no_file"
    by (simp add: authorized_def req_no_file_def req_alice_def ex_env_def field_def trim_def
        is_white_space_def js_def)
  have c: "\<not> no_file req_alice"
    by (simp add: no_file_def req_alice_def)
  show ?thesis
    using a b c C5_file_required [of req_no_file ex_env ex_fs ex_io]
      C5_file_required [of req_alice ex_env ex_fs ex_io]
    by blast
qed

text \<open>
  That bytes of zero length are refused fails: an upload with the empty buffer passes the
  file check of both handlers, and both answer 200.
\<close>

theorem C5_counterexample:
  "has_pdf req_empty_pdf [] \<and> authorized ex_env req_empty_pdf \<and>
   status (fst (verify_handler ex_env ex_fs req_empty_pdf)) = 200 \<and>
   status (fst (upload_handler ex_env ex_io ex_fs req_empty_pdf)) = 200"
  by (simp add: has_pdf_def authorized_def ex_defs handler_defs status_simps js_def)

subsection \<open>C6: the token check\<close>

text \<open>
  C6, as the code has it. A registration is answered 401 if and only if the token, once
  trimmed, is empty or differs from \<open>ADMIN_TOKEN\<close>; and it is then answered before any other
  check, the disk untouched and no filesystem call made.
\<close>

theorem C6_token_trimmed:
  "(status (fst (upload_handler E W F req)) = 401 \<longleftrightarrow>
      \<not> (field (token req) \<noteq> [] \<and> ADMIN_TOKEN E = Some (field (token req)))) \<and>
   (status (fst (upload_handler E W F req)) = 401 \<longrightarrow>
      upload_handler E W F req = (failure 401 ''Unauthorized (token)'', F, []))"
  using upload_unauthorized [of E req W F] upload_authorized_status [of E req W F]
  by (auto simp: authorized_def status_failure)

text \<open>An instance: a wrong token.\<close>

theorem C6_token_trimmed_witness:
  "status (fst (upload_handler ex_env ex_io ex_fs req_bad_token)) = 401 \<and>
   upload_handler ex_env ex_io ex_fs req_bad_token = (failure 401 ''Unauthorized (token)'', ex_fs, [])"
proof -
  have "\<not> (field (token req_bad_token) \<noteq> [] \<and> ADMIN_TOKEN ex_env = Some (field (token req_bad_token)))"
    by (simp add: req_bad_token_def req_alice_def ex_env_def field_def trim_def is_white_space_def js_def)
  with C6_token_trimmed [of ex_env ex_io ex_fs req_bad_token] show ?thesis by blast
qed

text \<open>
  That the token must equal the secret exactly fails: a token that differs from the secret
  in surrounding spaces is accepted, and the registration is answered 200.
\<close>

theorem C6_counterexample:
  "token req_padded = Some (js '' s3cret '') \<and> ADMIN_TOKEN ex_env = Some (js ''s3cret'') \<and>
   js '' s3cret '' \<noteq> js ''s3cret'' \<and>
   status (fst (upload_handler ex_env ex_io ex_fs req_padded)) = 200"
  by (simp add: upload_handler_def upload_try_def upload_store_def ex_env_def ex_io_def ex_fs_def
      req_padded_def ex_pdf_def field_def trim_def is_white_space_def js_def Let_def readDb_def
      readDb_try_def certificates_find_def md5Buffer_def certificates_unshift_def writeDb_def
      res_json_def stored_def)

subsection \<open>C7: readDb\<close>

text \<open>
  C7. \<open>readDb\<close> never throws: it is a function of the disk. But on the snapshot
  \<open>{"certificates": 5}\<close> it returns the number 5, not the empty sequence, although its
  documentation says that a broken file gives the empty array: \<open>|| []\<close> only replaces a
  falsy value. Both handlers then throw on \<open>db.certificates.find\<close> and answer 500.
\<close>

theorem C7_readDb_returns_number:
  "readDb ex_fs_number = \<lparr>certificates = JNum (Finite 5)\<rparr> \<and>
   status (fst (verify_handler ex_env ex_fs_number req_alice)) = 500"
  by (simp add: readDb_def readDb_try_def ex_fs_number_def get_prop_def verify_handler_def
      verify_try_def req_alice_def certificates_find_def status_server_error Let_def js_def)

subsection \<open>C8: one record for each digest\<close>

text \<open>
  C8. Let no digest occur in two records of the store. Then after any registration request,
  whatever its answer, no digest occurs in two records of the store; when the digest of the
  uploaded bytes is the digest of a record, the snapshot file is unchanged; when the
  answer carries a new record, its digest was not in the store, and the store is the new
  record followed by the records it had, as they are read back from the file; and no digest
  occurs in two records after any sequence of registrations and verifications served one
  after the other.
\<close>

theorem C8_one_record_per_digest:
  assumes "one_per_digest F"
  shows "one_per_digest (fst (snd (upload_handler E W F req))) \<and>
         (\<forall>B. has_pdf req B \<and> md5Buffer B \<in> set (digests (store_records F)) \<longrightarrow>
            DATA_FILE (fst (snd (upload_handler E W F req))) = DATA_FILE F) \<and>
         (\<forall>m r. fst (upload_handler E W F req) = stored m r \<longrightarrow>
            m \<notin> set (digests (store_records F)) \<and>
            store_records (fst (snd (upload_handler E W F req))) =
              r # map stringify_parse (store_records F) \<and>
            digests (store_records (fst (snd (upload_handler E W F req)))) =
              m # digests (store_records F)) \<and>
         (\<forall>calls. one_per_digest (run E F calls))"
proof -
  obtain x F' cs where t: "upload_try E W F req = (x, F', cs)"
    by (cases "upload_try E W F req") blast
  then have F': "fst (snd (upload_handler E W F req)) = F'"
    by (simp add: upload_handler_def split: sum.splits)
  have 1: "one_per_digest F'"
    using assms upload_try_DATA_FILE[OF t] by (rule one_per_digest_step)
  have 2: "\<forall>B. has_pdf req B \<and> md5Buffer B \<in> set (digests (store_records F)) \<longrightarrow>
      DATA_FILE F' = DATA_FILE F"
    using upload_try_existing_digest[OF t] by blast
  have 3: "m \<notin> set (digests (store_records F)) \<and>
      store_records F' = r # map stringify_parse (store_records F) \<and>
      digests (store_records F') = m # digests (store_records F)"
    if "fst (upload_handler E W F req) = stored m r" for m r
  proof -
    from that t have "x = Inr (stored m r)"
      by (cases x) (auto simp: upload_handler_def server_error_neq)
    with t have "upload_try E W F req = (Inr (stored m r), F', cs)" by simp
    from upload_try_stored[OF this]
    have a: "m \<notin> set (digests (store_records F))" and b: "digest_of r = Some m"
      and c: "store_records F' = r # map stringify_parse (store_records F)" by simp_all
    from b c have "digests (store_records F') = m # digests (map stringify_parse (store_records F))"
      by (simp add: digests_def List.map_filter_simps)
    with a c show ?thesis by (simp add: digests_stringify)
  qed
  have 4: "\<forall>calls. one_per_digest (run E F calls)"
    using assms by (simp add: run_one_per_digest)
  from 1 2 3 4 show ?thesis unfolding F' by blast
qed

text \<open>Instances: the first registration of Bob's bytes, and a second registration of them.\<close>

theorem C8_one_record_per_digest_witness:
  "one_per_digest ex_fs \<and> one_per_digest ex_fs_bob \<and>
   has_pdf req_alice ex_pdf \<and> md5Buffer ex_pdf \<in> set (digests (store_records ex_fs_bob)) \<and>
   fst (upload_handler ex_env ex_io ex_fs req_bob) =
     stored (js ''bfa4b10a76324b166cfdad5e02a63730'') ex_record_bob \<and>
   one_per_digest (fst (snd (upload_handler ex_env ex_io ex_fs req_bob))) \<and>
   store_records (fst (snd (upload_handler ex_env ex_io ex_fs req_bob))) = [ex_record_bob] \<and>
   one_per_digest (fst (snd (upload_handler ex_env ex_io_later ex_fs_bob req_alice))) \<and>
   DATA_FILE (fst (snd (upload_handler ex_env ex_io_later ex_fs_bob req_alice))) = DATA_FILE ex_fs_bob \<and>
   one_per_digest
     (run ex_env ex_fs [Upload ex_io req_bob, Upload ex_io_later req_alice, Verify req_alice]) \<and>
   store_records
     (run ex_env ex_fs [Upload ex_io req_bob, Upload ex_io_later req_alice, Verify req_alice]) =
     [ex_record_bob]"
proof -
  have a: "one_per_digest ex_fs"
    by (simp add: one_per_digest_def ex_fs_empty digests_def List.map_filter_simps)
  have d: "digests (store_records ex_fs_bob) = [js ''bfa4b10a76324b166cfdad5e02a63730'']"
    by (simp add: ex_fs_bob_store(2) digests_def List.map_filter_simps ex_record_bob_def
        digest_of_certificate_record)
  have b: "one_per_digest ex_fs_bob"
    by (simp add: one_per_digest_def d)
  have c: "md5Buffer ex_pdf \<in> set (digests (store_records ex_fs_bob))"
    by (simp add: d ex_md5)
  have e: "fst (upload_handler ex_env ex_io ex_fs req_bob) =
      stored (js ''bfa4b10a76324b166cfdad5e02a63730'') ex_record_bob"
    by (simp add: ex_upload_bob)
  note first = C8_one_record_per_digest [OF a, of ex_env ex_io req_bob]
  note second = C8_one_record_per_digest [OF b, of ex_env ex_io_later req_alice]
  from first have 1: "one_per_digest (fst (snd (upload_handler ex_env ex_io ex_fs req_bob)))"
    by blast
  from first e
  have "store_records (fst (snd (upload_handler ex_env ex_io ex_fs req_bob))) =
      ex_record_bob # map stringify_parse (store_records ex_fs)"
    by blast
  then have 2: "store_records (fst (snd (upload_handler ex_env ex_io ex_fs req_bob))) = [ex_record_bob]"
    by (simp add: ex_fs_empty(2))
  from second
  have 3: "one_per_digest (fst (snd (upload_handler ex_env ex_io_later ex_fs_bob req_alice)))"
    by blast
  from second ex_valid(2) c
  have 4: "DATA_FILE (fst (snd (upload_handler ex_env ex_io_later ex_fs_bob req_alice))) =
      DATA_FILE ex_fs_bob"
    by blast
  from first
  have 5: "one_per_digest
     (run ex_env ex_fs [Upload ex_io req_bob, Upload ex_io_later req_alice, Verify req_alice])"
    by blast
  have "run ex_env ex_fs [Upload ex_io req_bob, Upload ex_io_later req_alice, Verify req_alice] =
      ex_fs_bob\<lparr>UPLOADS_DIR := (UPLOADS_DIR ex_fs_bob)(js ''5e114207c3900df4.pdf'' \<mapsto> ex_pdf)\<rparr>"
    by (simp add: ex_fs_bob_def[symmetric] ex_upload_alice_dup verify_handler_snd)
  then have 6: "store_records
     (run ex_env ex_fs [Upload ex_io req_bob, Upload ex_io_later req_alice, Verify req_alice]) =
     [ex_record_bob]"
    by (simp add: store_records_def readDb_UPLOADS ex_fs_bob_store(1))
  from a b ex_valid(2) c e 1 2 3 4 5 6 show ?thesis by blast
qed

subsection \<open>C9: verification reads only, and shows four fields\<close>

text \<open>
  C9. A verification request leaves the disk as it is and makes no call that changes it. The
  properties of its answer are among \<open>ok\<close>, \<open>valid\<close>, \<open>md5\<close>, \<open>message\<close>,
  \<open>certificate\<close> and \<open>error\<close>, and those of its certificate are among \<open>studentName\<close>,
  \<open>degree\<close>, \<open>issueDate\<close> and \<open>createdAt\<close>: neither \<open>id\<close> nor \<open>storedFile\<close> is
  among them. For an upload of type \<open>application/pdf\<close> with the bytes \<open>B\<close> the lookup
  decides the answer. When it finds no record, the answer has the status 200 and exactly the
  properties \<open>ok: true\<close>, \<open>valid: false\<close>, \<open>md5\<close> the digest of \<open>B\<close>, and a message.
  When it finds the record \<open>c\<close>, a record of the store with the digest of \<open>B\<close>, the answer
  has the status 200 and exactly the properties \<open>ok: true\<close>, \<open>valid: true\<close>, \<open>md5\<close> the
  digest of \<open>B\<close>, and \<open>certificate\<close>, whose \<open>studentName\<close>, \<open>degree\<close>, \<open>issueDate\<close> and
  \<open>createdAt\<close> are those of \<open>c\<close>. An answer with the status 200 is one of these two.
\<close>

theorem C9_verify_read_only:
  "snd (verify_handler E F req) = (F, []) \<and>
   set (keys (body (fst (verify_handler E F req)))) \<subseteq>
     {js ''ok'', js ''valid'', js ''md5'', js ''message'', js ''certificate'', js ''error''} \<and>
   set (certificate_keys (fst (verify_handler E F req))) \<subseteq>
     {js ''studentName'', js ''degree'', js ''issueDate'', js ''createdAt''} \<and>
   js ''id'' \<notin> set (keys (body (fst (verify_handler E F req)))) \<and>
   js ''storedFile'' \<notin> set (keys (body (fst (verify_handler E F req)))) \<and>
   js ''id'' \<notin> set (certificate_keys (fst (verify_handler E F req))) \<and>
   js ''storedFile'' \<notin> set (certificate_keys (fst (verify_handler E F req))) \<and>
   (status (fst (verify_handler E F req)) = 200 \<longrightarrow>
      (\<exists>m. fst (verify_handler E F req) = no_match m) \<or>
      (\<exists>m c. fst (verify_handler E F req) = match m c \<and> c \<in> set (store_records F) \<and>
         digest_of c = Some m)) \<and>
   (\<forall>B. has_pdf req B \<longrightarrow>
      fst (verify_handler E F req) =
        (case certificates_find (readDb F) (md5Buffer B) of
           Inl e \<Rightarrow> server_error e
         | Inr None \<Rightarrow> no_match (md5Buffer B)
         | Inr (Some c) \<Rightarrow> match (md5Buffer B) c)) \<and>
   (\<forall>B. has_pdf req B \<and> certificates_find (readDb F) (md5Buffer B) = Inr None \<longrightarrow>
      status (fst (verify_handler E F req)) = 200 \<and>
      keys (body (fst (verify_handler E F req))) =
        [js ''ok'', js ''valid'', js ''md5'', js ''message''] \<and>
      property (body (fst (verify_handler E F req))) (js ''ok'') = Some (JBool True) \<and>
      property (body (fst (verify_handler E F req))) (js ''valid'') = Some (JBool False) \<and>
      property (body (fst (verify_handler E F req))) (js ''md5'') = Some (JStr (md5Buffer B)) \<and>
      property (body (fst (verify_handler E F req))) (js ''message'') =
        Some (JStr (js ''No match found'')) \<and>
      property (body (fst (verify_handler E F req))) (js ''certificate'') = None) \<and>
   (\<forall>B c. has_pdf req B \<and> certificates_find (readDb F) (md5Buffer B) = Inr (Some c) \<longrightarrow>
      c \<in> set (store_records F) \<and> digest_of c = Some (md5Buffer B) \<and>
      status (fst (verify_handler E F req)) = 200 \<and>
      keys (body (fst (verify_handler E F req))) =
        [js ''ok'', js ''valid'', js ''md5'', js ''certificate''] \<and>
      property (body (fst (verify_handler E F req))) (js ''ok'') = Some (JBool True) \<and>
      property (body (fst (verify_handler E F req))) (js ''valid'') = Some (JBool True) \<and>
      property (body (fst (verify_handler E F req))) (js ''md5'') = Some (JStr (md5Buffer B)) \<and>
      certificate_field (fst (verify_handler E F req)) ''studentName'' =
        property c (js ''studentName'') \<and>
      certificate_field (fst (verify_handler E F req)) ''degree'' = property c (js ''degree'') \<and>
      certificate_field (fst (verify_handler E F req)) ''issueDate'' =
        property c (js ''issueDate'') \<and>
      certificate_field (fst (verify_handler E F req)) ''createdAt'' =
        property c (js ''createdAt''))"
proof -
  note k = verify_handler_keys[of E F req]
  have ids: "js ''id'' \<notin> set (keys (body (fst (verify_handler E F req))))"
    "js ''storedFile'' \<notin> set (keys (body (fst (verify_handler E F req))))"
    "js ''id'' \<notin> set (certificate_keys (fst (verify_handler E F req)))"
    "js ''storedFile'' \<notin> set (certificate_keys (fst (verify_handler E F req)))"
    using k js_literals_distinct by blast+
  have none: "status (fst (verify_handler E F req)) = 200 \<and>
      keys (body (fst (verify_handler E F req))) =
        [js ''ok'', js ''valid'', js ''md5'', js ''message''] \<and>
      property (body (fst (verify_handler E F req))) (js ''ok'') = Some (JBool True) \<and>
      property (body (fst (verify_handler E F req))) (js ''valid'') = Some (JBool False) \<and>
      property (body (fst (verify_handler E F req))) (js ''md5'') = Some (JStr (md5Buffer B)) \<and>
      property (body (fst (verify_handler E F req))) (js ''message'') =
        Some (JStr (js ''No match found'')) \<and>
      property (body (fst (verify_handler E F req))) (js ''certificate'') = None"
    if "has_pdf req B \<and> certificates_find (readDb F) (md5Buffer B) = Inr None" for B
  proof -
    from that have "fst (verify_handler E F req) = no_match (md5Buffer B)"
      by (simp add: verify_handler_pdf[of req B E F])
    then show ?thesis by (simp add: status_simps keys_no_match body_no_match)
  qed
  have some: "c \<in> set (store_records F) \<and> digest_of c = Some (md5Buffer B) \<and>
      status (fst (verify_handler E F req)) = 200 \<and>
      keys (body (fst (verify_handler E F req))) =
        [js ''ok'', js ''valid'', js ''md5'', js ''certificate''] \<and>
      property (body (fst (verify_handler E F req))) (js ''ok'') = Some (JBool True) \<and>
      property (body (fst (verify_handler E F req))) (js ''valid'') = Some (JBool True) \<and>
      property (body (fst (verify_handler E F req))) (js ''md5'') = Some (JStr (md5Buffer B)) \<and>
      certificate_field (fst (verify_handler E F req)) ''studentName'' =
        property c (js ''studentName'') \<and>
      certificate_field (fst (verify_handler E F req)) ''degree'' = property c (js ''degree'') \<and>
      certificate_field (fst (verify_handler E F req)) ''issueDate'' =
        property c (js ''issueDate'') \<and>
      certificate_field (fst (verify_handler E F req)) ''createdAt'' =
        property c (js ''createdAt'')"
    if "has_pdf req B \<and> certificates_find (readDb F) (md5Buffer B) = Inr (Some c)" for B c
  proof -
    from that have "fst (verify_handler E F req) = match (md5Buffer B) c"
      by (simp add: verify_handler_pdf[of req B E F])
    moreover from that have "c \<in> set (store_records F) \<and> digest_of c = Some (md5Buffer B)"
      using certificates_find_Some[of F "md5Buffer B" c] by blast
    ultimately show ?thesis
      by (simp add: status_simps keys_match(1) body_match certificate_field_match)
  qed
  from ids k verify_handler_snd[of E F req] verify_handler_200[of E F req]
    verify_handler_pdf[of req _ E F] none some
  show ?thesis by blast
qed

text \<open>
  Instances: verifying Bob's bytes, whose record has an \<open>id\<close>, on the disk that holds the
  record, and on the empty disk.
\<close>

theorem C9_verify_read_only_witness:
  "has_pdf req_alice ex_pdf \<and>
   certificates_find (readDb ex_fs_bob) (md5Buffer ex_pdf) = Inr (Some ex_record_bob) \<and>
   status (fst (verify_handler ex_env ex_fs_bob req_alice)) = 200 \<and>
   snd (verify_handler ex_env ex_fs_bob req_alice) = (ex_fs_bob, []) \<and>
   property (body (fst (verify_handler ex_env ex_fs_bob req_alice))) (js ''valid'') =
     Some (JBool True) \<and>
   property (body (fst (verify_handler ex_env ex_fs_bob req_alice))) (js ''md5'') =
     Some (JStr (js ''bfa4b10a76324b166cfdad5e02a63730'')) \<and>
   certificate_field (fst (verify_handler ex_env ex_fs_bob req_alice)) ''studentName'' =
     Some (JStr (js ''Bob'')) \<and>
   js ''id'' \<in> set (keys ex_record_bob) \<and>
   js ''id'' \<notin> set (certificate_keys (fst (verify_handler ex_env ex_fs_bob req_alice))) \<and>
   certificates_find (readDb ex_fs) (md5Buffer ex_pdf) = Inr None \<and>
   status (fst (verify_handler ex_env ex_fs req_alice)) = 200 \<and>
   property (body (fst (verify_handler ex_env ex_fs req_alice))) (js ''valid'') =
     Some (JBool False) \<and>
   property (body (fst (verify_handler ex_env ex_fs req_alice))) (js ''md5'') =
     Some (JStr (js ''bfa4b10a76324b166cfdad5e02a63730''))"
proof -
  note on_bob = C9_verify_read_only [of ex_env ex_fs_bob req_alice]
  note on_empty = C9_verify_read_only [of ex_env ex_fs req_alice]
  have f: "certificates_find (readDb ex_fs_bob) (md5Buffer ex_pdf) = Inr (Some ex_record_bob)"
    by (simp only: ex_md5 ex_fs_bob_store(3))
  have e: "certificates_find (readDb ex_fs) (md5Buffer ex_pdf) = Inr None"
    by (rule ex_fs_empty(1))
  have k: "js ''id'' \<in> set (keys ex_record_bob)"
    by (simp add: keys_def ex_record_bob_def certificate_record_def object_def)
  have bob: "property ex_record_bob (js ''studentName'') = Some (JStr (js ''Bob''))"
    by (simp add: ex_record_bob_def certificate_record_def object_def js_eq_iff)
  note tail = conjunct2 [THEN conjunct2, THEN conjunct2, THEN conjunct2, THEN conjunct2,
      THEN conjunct2, THEN conjunct2, THEN conjunct2, THEN conjunct2]
  note found = on_bob [THEN tail, THEN conjunct2, rule_format, OF conjI [OF ex_valid(2) f]]
  note absent = on_empty [THEN tail, THEN conjunct1, rule_format, OF conjI [OF ex_valid(2) e]]
  from on_bob have r: "snd (verify_handler ex_env ex_fs_bob req_alice) = (ex_fs_bob, [])"
    by (rule conjunct1)
  from on_bob have n: "js ''id'' \<notin> set (certificate_keys (fst (verify_handler ex_env ex_fs_bob req_alice)))"
    by (rule conjunct2 [THEN conjunct2, THEN conjunct2, THEN conjunct2, THEN conjunct2,
        THEN conjunct1])
  from found have s1: "status (fst (verify_handler ex_env ex_fs_bob req_alice)) = 200" by (elim conjE)
  from found have v1: "property (body (fst (verify_handler ex_env ex_fs_bob req_alice))) (js ''valid'') =
     Some (JBool True)" by (elim conjE)
  from found have "property (body (fst (verify_handler ex_env ex_fs_bob req_alice))) (js ''md5'') =
     Some (JStr (md5Buffer ex_pdf))" by (elim conjE)
  then have m1: "property (body (fst (verify_handler ex_env ex_fs_bob req_alice))) (js ''md5'') =
     Some (JStr (js ''bfa4b10a76324b166cfdad5e02a63730''))" by (simp only: ex_md5)
  from found have "certificate_field (fst (verify_handler ex_env ex_fs_bob req_alice)) ''studentName'' =
     property ex_record_bob (js ''studentName'')" by (elim conjE)
  then have c1: "certificate_field (fst (verify_handler ex_env ex_fs_bob req_alice)) ''studentName'' =
     Some (JStr (js ''Bob''))" by (simp only: bob)
  from absent have s2: "status (fst (verify_handler ex_env ex_fs req_alice)) = 200" by (elim conjE)
  from absent have v2: "property (body (fst (verify_handler ex_env ex_fs req_alice))) (js ''valid'') =
     Some (JBool False)" by (elim conjE)
  from absent have "property (body (fst (verify_handler ex_env ex_fs req_alice))) (js ''md5'') =
     Some (JStr (md5Buffer ex_pdf))" by (elim conjE)
  then have m2: "property (body (fst (verify_handler ex_env ex_fs req_alice))) (js ''md5'') =
     Some (JStr (js ''bfa4b10a76324b166cfdad5e02a63730''))" by (simp only: ex_md5)
  show ?thesis
    by (intro conjI) (rule ex_valid(2) f s1 r v1 m1 c1 k n e s2 v2 m2)+
qed

subsection \<open>C10: the stored fields are trimmed\<close>

text \<open>
  C10. Let a registration with the submitted fields \<open>n\<close>, \<open>g\<close> and \<open>i\<close> create a record.
  Then the record that is answered and put first in the store has \<open>trim n\<close>, \<open>trim g\<close> and
  \<open>trim i\<close> as its \<open>studentName\<close>, \<open>degree\<close> and \<open>issueDate\<close>, a later verification of
  the same bytes answers with them, and each trimmed value neither starts nor ends with
  white space and is the submitted value with only white space removed at both ends.
\<close>

theorem C10_metadata_trimmed:
  assumes "authorized E req" "has_pdf req B" "blob_io_ok W" "store_io_ok W"
    "certificates_find (readDb F) (md5Buffer B) = Inr None"
    "studentName req = Some n" "degree req = Some g" "issueDate req = Some i"
    "trim n \<noteq> []" "trim g \<noteq> []" "trim i \<noteq> []"
  shows "fst (upload_handler E W F req) = stored (md5Buffer B) (new_record E W B req) \<and>
         store_records (fst (snd (upload_handler E W F req))) =
           new_record E W B req # map stringify_parse (store_records F) \<and>
         property (new_record E W B req) (js ''studentName'') = Some (JStr (trim n)) \<and>
         property (new_record E W B req) (js ''degree'') = Some (JStr (trim g)) \<and>
         property (new_record E W B req) (js ''issueDate'') = Some (JStr (trim i)) \<and>
         (\<forall>req'. has_pdf req' B \<longrightarrow>
            certificate_field (fst (verify_handler E (fst (snd (upload_handler E W F req))) req'))
              ''studentName'' = Some (JStr (trim n)) \<and>
            certificate_field (fst (verify_handler E (fst (snd (upload_handler E W F req))) req'))
              ''degree'' = Some (JStr (trim g)) \<and>
            certificate_field (fst (verify_handler E (fst (snd (upload_handler E W F req))) req'))
              ''issueDate'' = Some (JStr (trim i))) \<and>
         (\<forall>s \<in> {n, g, i}.
            \<not> is_white_space (hd (trim s)) \<and> \<not> is_white_space (last (trim s)) \<and>
            (\<exists>l r. s = l @ trim s @ r \<and> (\<forall>c \<in> set l \<union> set r. is_white_space c)))"
proof -
  have f: "field (studentName req) = trim n" "field (degree req) = trim g"
    "field (issueDate req) = trim i"
    using assms(6-8) by (simp_all add: field_Some)
  with assms(9-11) have p: "fields_present req" by (simp add: fields_present_def)
  note c = upload_handler_create[OF assms(1,2) p assms(3-5)]
  have props: "property (new_record E W B req) (js ''studentName'') = Some (JStr (trim n))"
    "property (new_record E W B req) (js ''degree'') = Some (JStr (trim g))"
    "property (new_record E W B req) (js ''issueDate'') = Some (JStr (trim i))"
    by (simp_all add: new_record_def certificate_record_def object_def js_eq_iff f)
  have v: "certificate_field (fst (verify_handler E (fst (snd (upload_handler E W F req))) req'))
              ''studentName'' = Some (JStr (trim n)) \<and>
            certificate_field (fst (verify_handler E (fst (snd (upload_handler E W F req))) req'))
              ''degree'' = Some (JStr (trim g)) \<and>
            certificate_field (fst (verify_handler E (fst (snd (upload_handler E W F req))) req'))
              ''issueDate'' = Some (JStr (trim i))"
    if "has_pdf req' B" for req'
    by (simp add: verify_handler_pdf[OF that] c(3) match_new_record f)
  have t: "\<not> is_white_space (hd (trim s)) \<and> \<not> is_white_space (last (trim s)) \<and>
      (\<exists>l r. s = l @ trim s @ r \<and> (\<forall>c \<in> set l \<union> set r. is_white_space c))"
    if "trim s \<noteq> []" for s
    using trim_ends[OF that] trim_decompose[of s] by blast
  from c(1,2) props v t assms(9-11) show ?thesis by blast
qed

text \<open>An instance, with padded fields.\<close>

theorem C10_metadata_trimmed_witness:
  "authorized ex_env req_padded \<and> has_pdf req_padded ex_pdf \<and> blob_io_ok ex_io \<and> store_io_ok ex_io \<and>
   certificates_find (readDb ex_fs) (md5Buffer ex_pdf) = Inr None \<and>
   studentName req_padded = Some (js ''  Alice '') \<and> degree req_padded = Some (js ''BSc '') \<and>
   issueDate req_padded = Some (js '' 2024-01-01'') \<and>
   trim (js ''  Alice '') = js ''Alice'' \<and> trim (js ''BSc '') = js ''BSc'' \<and>
   trim (js '' 2024-01-01'') = js ''2024-01-01'' \<and>
   store_records (fst (snd (upload_handler ex_env ex_io ex_fs req_padded))) = [ex_record_alice] \<and>
   property ex_record_alice (js ''studentName'') = Some (JStr (js ''Alice'')) \<and>
   has_pdf req_alice ex_pdf \<and>
   certificate_field (fst (verify_handler ex_env (fst (snd (upload_handler ex_env ex_io ex_fs req_padded))) req_alice))
     ''studentName'' = Some (JStr (js ''Alice''))"
proof -
  have t: "trim (js ''  Alice '') = js ''Alice''" "trim (js ''BSc '') = js ''BSc''"
    "trim (js '' 2024-01-01'') = js ''2024-01-01''"
    by (simp_all add: trim_def is_white_space_def js_def)
  have ne: "trim (js ''  Alice '') \<noteq> []" "trim (js ''BSc '') \<noteq> []" "trim (js '' 2024-01-01'') \<noteq> []"
    by (simp_all only: t js_eq_iff) (simp_all add: js_def)
  have r: "new_record ex_env ex_io ex_pdf req_padded = ex_record_alice"
    by (simp add: new_record_def ex_record_alice_def ex_padded(4-6) ex_md5 ex_hex)
      (simp add: ex_io_def js_def)
  note c10 = C10_metadata_trimmed [OF ex_padded(1) ex_padded(2) ex_valid(7) ex_valid(8)
      ex_fs_empty(1) ex_padded(7) ex_padded(8) ex_padded(9) ne]
  from c10 have s: "store_records (fst (snd (upload_handler ex_env ex_io ex_fs req_padded))) = [ex_record_alice]"
    by (simp add: r ex_fs_empty(2))
  from c10 have p: "property ex_record_alice (js ''studentName'') = Some (JStr (js ''Alice''))"
    by (simp add: r t)
  from c10 ex_valid(2) have v: "certificate_field (fst (verify_handler ex_env (fst (snd (upload_handler ex_env ex_io ex_fs req_padded))) req_alice))
     ''studentName'' = Some (JStr (trim (js ''  Alice '')))"
    by blast
  from ex_padded(1,2,7-9) ex_valid(2,7,8) ex_fs_empty(1)[of "md5Buffer ex_pdf"] t s p v
  show ?thesis by (simp only: t)
qed

end
